theory Spec2Isabelle
  imports Complex_Main "HOL-Library.Word" "HOL-Library.Sublist"
begin

unbundle bit_operations_syntax

section \<open>Number and error model\<close>

text \<open>
  JavaScript numbers are modelled as exact reals. Every value the geohash codec
  computes at precision up to 10 is a dyadic multiple of 45 with at most 26
  binary places, which a double holds exactly, so there the model and the
  program agree; elsewhere the model is the idealised real-number reading of
  the code. Every \<open>throw\<close> of the source is a constructor of \<open>error\<close>.
\<close>

text \<open>
  Where a claim turns on what is not a real number, a value of type \<open>number\<close> is
  a \<open>jsnum\<close>: a real, \<open>NaN\<close> or one of the two infinities.
\<close>

datatype jsnum = Num real | NaN | PosInfinity | NegInfinity

datatype error =
    LatitudeRange real
  | LongitudeRange real
  | EmptyGeohash
  | InvalidGeohashChar char
  | MetadataNotFound nat
  | CountryNotFound string
  | PolygonNotFound nat
  | InvalidPolygon nat
  | NoValidExteriors nat
  | LatitudeRangeJs jsnum
  | LongitudeRangeJs jsnum
  | InvalidCoordinate "real list"

section \<open>Geohash codec (src/geohash/index.ts)\<close>

definition BASE32 :: string where
  "BASE32 = ''0123456789bcdefghjkmnpqrstuvwxyz''"

definition GEOHASH_PRECISION :: nat where
  "GEOHASH_PRECISION = 6"

definition bitsPerChar :: nat where
  "bitsPerChar = 5"

record enc_state =
  e_latRange :: "real \<times> real"
  e_lonRange :: "real \<times> real"
  e_ch :: nat
  e_geohash :: string

text \<open>
  One iteration of the \<open>for\<close> loop of \<open>encode\<close>, at loop index \<open>i\<close>. The bit
  position is the source's \<open>bitsPerChar - 1 - Math.floor(i / 2) % bitsPerChar\<close>,
  in which \<open>%\<close> binds tighter than the subtraction.
\<close>

definition encode_step :: "real \<Rightarrow> real \<Rightarrow> enc_state \<Rightarrow> nat \<Rightarrow> enc_state" where
  "encode_step lat lon s i =
     (let s1 =
        (if i mod 2 = 0 then
           (let mid = (fst (e_lonRange s) + snd (e_lonRange s)) / 2 in
            if lon \<ge> mid
            then s\<lparr>e_ch := e_ch s OR push_bit (bitsPerChar - 1 - (i div 2) mod bitsPerChar) 1,
                   e_lonRange := (mid, snd (e_lonRange s))\<rparr>
            else s\<lparr>e_lonRange := (fst (e_lonRange s), mid)\<rparr>)
         else
           (let mid = (fst (e_latRange s) + snd (e_latRange s)) / 2 in
            if lat \<ge> mid
            then s\<lparr>e_ch := e_ch s OR push_bit (bitsPerChar - 1 - (i div 2) mod bitsPerChar) 1,
                   e_latRange := (mid, snd (e_latRange s))\<rparr>
            else s\<lparr>e_latRange := (fst (e_latRange s), mid)\<rparr>))
      in if (i + 1) mod bitsPerChar = 0
         then s1\<lparr>e_geohash := e_geohash s1 @ [BASE32 ! e_ch s1], e_ch := 0\<rparr>
         else s1)"

definition encode_init :: enc_state where
  "encode_init =
     \<lparr>e_latRange = (-90, 90), e_lonRange = (-180, 180), e_ch = 0, e_geohash = []\<rparr>"

definition encode :: "real \<Rightarrow> real \<Rightarrow> nat \<Rightarrow> error + string" where
  "encode lat lon precision =
     (if lat < -90 \<or> lat > 90 then Inl (LatitudeRange lat)
      else if lon < -180 \<or> lon > 180 then Inl (LongitudeRange lon)
      else Inr (e_geohash
                  (foldl (encode_step lat lon) encode_init [0..<precision * bitsPerChar])))"

text \<open>\<open>BASE32.indexOf(char)\<close>, with \<open>None\<close> for the source's \<open>-1\<close>.\<close>

fun indexOf :: "'a list \<Rightarrow> 'a \<Rightarrow> nat option" where
  "indexOf [] c = None"
| "indexOf (x # xs) c = (if x = c then Some 0 else map_option Suc (indexOf xs c))"

record dec_state =
  d_latRange :: "real \<times> real"
  d_lonRange :: "real \<times> real"
  d_isEven :: bool

definition decode_bit :: "nat \<Rightarrow> dec_state \<Rightarrow> nat \<Rightarrow> dec_state" where
  "decode_bit idx s j =
     (let bit = drop_bit (4 - j) idx AND 1;
          s1 = (if d_isEven s then
                  (let mid = (fst (d_lonRange s) + snd (d_lonRange s)) / 2 in
                   if bit \<noteq> 0 then s\<lparr>d_lonRange := (mid, snd (d_lonRange s))\<rparr>
                   else s\<lparr>d_lonRange := (fst (d_lonRange s), mid)\<rparr>)
                else
                  (let mid = (fst (d_latRange s) + snd (d_latRange s)) / 2 in
                   if bit \<noteq> 0 then s\<lparr>d_latRange := (mid, snd (d_latRange s))\<rparr>
                   else s\<lparr>d_latRange := (fst (d_latRange s), mid)\<rparr>))
      in s1\<lparr>d_isEven := \<not> d_isEven s\<rparr>)"

fun decode_chars :: "dec_state \<Rightarrow> string \<Rightarrow> error + dec_state" where
  "decode_chars s [] = Inr s"
| "decode_chars s (c # cs) =
     (case indexOf BASE32 c of
        None \<Rightarrow> Inl (InvalidGeohashChar c)
      | Some idx \<Rightarrow> decode_chars (foldl (decode_bit idx) s [0..<5]) cs)"

record decoded =
  dec_lat :: real
  dec_lon :: real
  latRange :: "real \<times> real"
  lonRange :: "real \<times> real"

definition decode_init :: dec_state where
  "decode_init = \<lparr>d_latRange = (-90, 90), d_lonRange = (-180, 180), d_isEven = True\<rparr>"

definition decode :: "string \<Rightarrow> error + decoded" where
  "decode geohash =
     (if geohash = [] then Inl EmptyGeohash
      else case decode_chars decode_init geohash of
             Inl e \<Rightarrow> Inl e
           | Inr s \<Rightarrow>
               Inr \<lparr>dec_lat = (fst (d_latRange s) + snd (d_latRange s)) / 2,
                    dec_lon = (fst (d_lonRange s) + snd (d_lonRange s)) / 2,
                    latRange = d_latRange s, lonRange = d_lonRange s\<rparr>)"

text \<open>\<open>Math.max(lo, Math.min(hi, x))\<close>.\<close>

definition clampTo :: "real \<Rightarrow> real \<Rightarrow> real \<Rightarrow> real" where
  "clampTo lo hi x = max lo (min hi x)"

text \<open>The \<open>neighbors.push(encode(...))\<close> calls in order; the first throw aborts.\<close>

fun encode_all :: "nat \<Rightarrow> (real \<times> real) list \<Rightarrow> error + string list" where
  "encode_all p [] = Inr []"
| "encode_all p ((la, lo) # ps) =
     (case encode la lo p of
        Inl e \<Rightarrow> Inl e
      | Inr g \<Rightarrow> (case encode_all p ps of Inl e \<Rightarrow> Inl e | Inr gs \<Rightarrow> Inr (g # gs)))"

text \<open>The offsets of the two nested loops, with the \<open>continue\<close> at (0, 0).\<close>

definition neighborOffsets :: "real \<Rightarrow> real \<Rightarrow> (real \<times> real) list" where
  "neighborOffsets latStep lonStep =
     filter (\<lambda>(dlat, dlon). \<not> (dlat = 0 \<and> dlon = 0))
       (concat (map (\<lambda>dlat. map (\<lambda>dlon. (dlat, dlon)) [- lonStep, 0, lonStep])
                    [- latStep, 0, latStep]))"

definition getNeighbors :: "string \<Rightarrow> error + string list" where
  "getNeighbors geohash =
     (case decode geohash of
        Inl e \<Rightarrow> Inl e
      | Inr d \<Rightarrow>
          (let latStep = snd (latRange d) - fst (latRange d);
               lonStep = snd (lonRange d) - fst (lonRange d)
           in encode_all (length geohash)
                (map (\<lambda>(dlat, dlon). (clampTo (-90) 90 (dec_lat d + dlat),
                                        clampTo (-180) 180 (dec_lon d + dlon)))
                     (neighborOffsets latStep lonStep))))"

text \<open>A decoded bounding box contains a point (both ranges closed).\<close>

definition boxContains :: "decoded \<Rightarrow> real \<Rightarrow> real \<Rightarrow> bool" where
  "boxContains d la lo =
     (fst (latRange d) \<le> la \<and> la \<le> snd (latRange d) \<and>
      fst (lonRange d) \<le> lo \<and> lo \<le> snd (lonRange d))"

definition validGeohash :: "string \<Rightarrow> bool" where
  "validGeohash g = (g \<noteq> [] \<and> list_all (\<lambda>c. c \<in> set BASE32) g)"

section \<open>Point in polygon and distance to the boundary (src/pip)\<close>

type_synonym Point = "real \<times> real"
type_synonym Polygon = "Point list"

text \<open>
  The ray-casting loop. The second argument is \<open>polygon[j]\<close>, the vertex before
  the one under the loop index; it starts at the last vertex.
\<close>

fun pip_loop :: "Point \<Rightarrow> Point \<Rightarrow> Polygon \<Rightarrow> bool \<Rightarrow> bool" where
  "pip_loop pt p_j [] inside = inside"
| "pip_loop pt p_j (p_i # rest) inside =
     (let lat = fst pt; lon = snd pt;
          lat_i = fst p_i; lon_i = snd p_i;
          lat_j = fst p_j; lon_j = snd p_j
      in pip_loop pt p_i rest
           (if (lat_i > lat) \<noteq> (lat_j > lat) then
              (let intersectLon =
                 (if lon_j \<noteq> lon_i
                  then (lat - lat_i) * (lon_j - lon_i) / (lat_j - lat_i) + lon_i
                  else lon_i)
               in if lon < intersectLon then \<not> inside else inside)
            else inside))"

definition pointInPolygon :: "Point \<Rightarrow> Polygon \<Rightarrow> bool" where
  "pointInPolygon pt polygon =
     (if length polygon < 3 then False
      else pip_loop pt (last polygon) polygon False)"

fun notInAnyHole :: "Point \<Rightarrow> Polygon list \<Rightarrow> bool" where
  "notInAnyHole pt [] = True"
| "notInAnyHole pt (hole # holes) =
     (if pointInPolygon pt hole then False else notInAnyHole pt holes)"

definition pointInPolygonWithHoles :: "Point \<Rightarrow> Polygon \<Rightarrow> Polygon list \<Rightarrow> bool" where
  "pointInPolygonWithHoles pt exterior holes =
     (if \<not> pointInPolygon pt exterior then False else notInAnyHole pt holes)"

text \<open>A distance: a real, or the \<open>Infinity\<close> that an empty ring yields.\<close>

datatype dist = Finite real | Infinity

fun dmin :: "dist \<Rightarrow> dist \<Rightarrow> dist" where
  "dmin Infinity d = d"
| "dmin d Infinity = d"
| "dmin (Finite a) (Finite b) = Finite (min a b)"

fun dle :: "dist \<Rightarrow> dist \<Rightarrow> bool" where
  "dle d Infinity = True"
| "dle Infinity (Finite b) = False"
| "dle (Finite a) (Finite b) = (a \<le> b)"

definition segmentDistance :: "Point \<Rightarrow> Point \<Rightarrow> Point \<Rightarrow> real" where
  "segmentDistance pt p_i p_j =
     (let lat = fst pt; lon = snd pt;
          lat_i = fst p_i; lon_i = snd p_i;
          lat_j = fst p_j; lon_j = snd p_j;
          dx = lon_j - lon_i;
          dy = lat_j - lat_i
      in if dx = 0 \<and> dy = 0
         then sqrt ((lat - lat_i)\<^sup>2 + (lon - lon_i)\<^sup>2)
         else (let t = max 0 (min 1 (((lat - lat_i) * dy + (lon - lon_i) * dx)
                                       / (dx * dx + dy * dy)));
                   projLat = lat_i + t * dy;
                   projLon = lon_i + t * dx
               in sqrt ((lat - projLat)\<^sup>2 + (lon - projLon)\<^sup>2)))"

fun dist_loop :: "Point \<Rightarrow> Point \<Rightarrow> Polygon \<Rightarrow> dist \<Rightarrow> dist" where
  "dist_loop pt p_j [] minDist = minDist"
| "dist_loop pt p_j (p_i # rest) minDist =
     dist_loop pt p_i rest (dmin minDist (Finite (segmentDistance pt p_i p_j)))"

definition distanceToPolygonEdge :: "Point \<Rightarrow> Polygon \<Rightarrow> dist" where
  "distanceToPolygonEdge pt polygon =
     (if polygon = [] then Infinity
      else dist_loop pt (last polygon) polygon Infinity)"

section \<open>Confidence scoring (src/utils/confidence)\<close>

text \<open>The first half of \<open>calculateConfidence\<close>: the loop that computes \<open>minDist\<close>.\<close>

definition minEdgeDistance :: "Point \<Rightarrow> Polygon \<Rightarrow> Polygon list \<Rightarrow> dist" where
  "minEdgeDistance pt polygon holes =
     foldl (\<lambda>minDist hole. dmin minDist (distanceToPolygonEdge pt hole))
           (distanceToPolygonEdge pt polygon) holes"

text \<open>The \<open>if\<close> chain on \<open>minDist\<close>; \<open>Infinity >= 0.1\<close> holds.\<close>

fun baseConfidence :: "dist \<Rightarrow> real" where
  "baseConfidence Infinity = 0.98"
| "baseConfidence (Finite minDist) =
     (if minDist \<ge> 0.1 then 0.98
      else if minDist \<ge> 0.05 then 0.88 + (minDist - 0.05) / 0.05 * 0.10
      else if minDist \<ge> 0.01 then 0.75 + (minDist - 0.01) / 0.04 * 0.13
      else 0.70 + minDist / 0.01 * 0.05)"

text \<open>The second half: base confidence, ambiguity penalty and clamp.\<close>

definition confidenceOfDistance :: "dist \<Rightarrow> real \<Rightarrow> real" where
  "confidenceOfDistance minDist candidateCount =
     (let base = baseConfidence minDist;
          base' = (if candidateCount > 1
                   then base - min 0.2 ((candidateCount - 1) * 0.05)
                   else base)
      in max 0.5 (min 1.0 base'))"

definition calculateConfidence :: "Point \<Rightarrow> Polygon \<Rightarrow> Polygon list \<Rightarrow> real \<Rightarrow> real" where
  "calculateConfidence pt polygon holes candidateCount =
     confidenceOfDistance (minEdgeDistance pt polygon holes) candidateCount"

subsection \<open>The scorer as the specification words it\<close>

fun spec_minOverHoles :: "Point \<Rightarrow> Polygon list \<Rightarrow> dist" where
  "spec_minOverHoles pt [] = Infinity"
| "spec_minOverHoles pt (h # hs) =
     dmin (distanceToPolygonEdge pt h) (spec_minOverHoles pt hs)"

definition spec_d :: "Point \<Rightarrow> Polygon \<Rightarrow> Polygon list \<Rightarrow> dist" where
  "spec_d pt exterior holes =
     dmin (distanceToPolygonEdge pt exterior) (spec_minOverHoles pt holes)"

definition spec_base :: "dist \<Rightarrow> real" where
  "spec_base d =
     (if dle (Finite 0.1) d then 0.98
      else if dle (Finite 0.05) d \<and> \<not> dle (Finite 0.1) d
        then 0.88 + (case d of Finite x \<Rightarrow> (x - 0.05) / 0.05 * 0.10 | Infinity \<Rightarrow> 0)
      else if dle (Finite 0.01) d \<and> \<not> dle (Finite 0.05) d
        then 0.75 + (case d of Finite x \<Rightarrow> (x - 0.01) / 0.04 * 0.13 | Infinity \<Rightarrow> 0)
      else 0.70 + (case d of Finite x \<Rightarrow> x / 0.01 * 0.05 | Infinity \<Rightarrow> 0))"

definition spec_score :: "Point \<Rightarrow> Polygon \<Rightarrow> Polygon list \<Rightarrow> real \<Rightarrow> real" where
  "spec_score pt exterior holes candidateCount =
     (let b = spec_base (spec_d pt exterior holes);
          penalised = (if candidateCount > 1
                       then b - min 0.2 ((candidateCount - 1) * 0.05) else b)
      in if penalised < 0.5 then 0.5 else if penalised > 1.0 then 1.0 else penalised)"

section \<open>Codec, geometry and scorer on every number\<close>

text \<open>
  The same functions, read for inputs that the sections above exclude by
  their types: a latitude or longitude that is \<open>NaN\<close> or infinite, and a
  vertex taken from a coordinate array of fewer than two entries. A component
  of a vertex or of the point is a \<open>real option\<close>, \<open>None\<close> being \<open>undefined\<close> (an
  entry that an array lacks) or \<open>NaN\<close>: both make every ordering comparison
  false and every arithmetic result \<open>NaN\<close>. Divisions are between reals and
  happen only where the source divides by a number other than zero.
\<close>

fun jsLess :: "jsnum \<Rightarrow> real \<Rightarrow> bool" where
  "jsLess (Num x) c = (x < c)"
| "jsLess NaN c = False"
| "jsLess PosInfinity c = False"
| "jsLess NegInfinity c = True"

fun jsGreater :: "jsnum \<Rightarrow> real \<Rightarrow> bool" where
  "jsGreater (Num x) c = (x > c)"
| "jsGreater NaN c = False"
| "jsGreater PosInfinity c = True"
| "jsGreater NegInfinity c = False"

fun jsGreaterEq :: "jsnum \<Rightarrow> real \<Rightarrow> bool" where
  "jsGreaterEq (Num x) c = (x \<ge> c)"
| "jsGreaterEq NaN c = False"
| "jsGreaterEq PosInfinity c = True"
| "jsGreaterEq NegInfinity c = False"

definition encode_step_js :: "jsnum \<Rightarrow> jsnum \<Rightarrow> enc_state \<Rightarrow> nat \<Rightarrow> enc_state" where
  "encode_step_js lat lon s i =
     (let s1 =
        (if i mod 2 = 0 then
           (let mid = (fst (e_lonRange s) + snd (e_lonRange s)) / 2 in
            if jsGreaterEq lon mid
            then s\<lparr>e_ch := e_ch s OR push_bit (bitsPerChar - 1 - (i div 2) mod bitsPerChar) 1,
                   e_lonRange := (mid, snd (e_lonRange s))\<rparr>
            else s\<lparr>e_lonRange := (fst (e_lonRange s), mid)\<rparr>)
         else
           (let mid = (fst (e_latRange s) + snd (e_latRange s)) / 2 in
            if jsGreaterEq lat mid
            then s\<lparr>e_ch := e_ch s OR push_bit (bitsPerChar - 1 - (i div 2) mod bitsPerChar) 1,
                   e_latRange := (mid, snd (e_latRange s))\<rparr>
            else s\<lparr>e_latRange := (fst (e_latRange s), mid)\<rparr>))
      in if (i + 1) mod bitsPerChar = 0
         then s1\<lparr>e_geohash := e_geohash s1 @ [BASE32 ! e_ch s1], e_ch := 0\<rparr>
         else s1)"

definition encode_js :: "jsnum \<Rightarrow> jsnum \<Rightarrow> nat \<Rightarrow> error + string" where
  "encode_js lat lon precision =
     (if jsLess lat (-90) \<or> jsGreater lat 90 then Inl (LatitudeRangeJs lat)
      else if jsLess lon (-180) \<or> jsGreater lon 180 then Inl (LongitudeRangeJs lon)
      else Inr (e_geohash
                  (foldl (encode_step_js lat lon) encode_init [0..<precision * bitsPerChar])))"

type_synonym JsPoint = "real option \<times> real option"
type_synonym JsPolygon = "JsPoint list"

text \<open>An arithmetic operation: \<open>NaN\<close> as soon as an operand is \<open>undefined\<close> or \<open>NaN\<close>.\<close>

definition lift2 :: "(real \<Rightarrow> real \<Rightarrow> real) \<Rightarrow> real option \<Rightarrow> real option \<Rightarrow> real option" where
  "lift2 f a b =
     (case a of None \<Rightarrow> None | Some x \<Rightarrow> (case b of None \<Rightarrow> None | Some y \<Rightarrow> Some (f x y)))"

definition gt_js :: "real option \<Rightarrow> real option \<Rightarrow> bool" where
  "gt_js a b =
     (case a of None \<Rightarrow> False | Some x \<Rightarrow> (case b of None \<Rightarrow> False | Some y \<Rightarrow> x > y))"

definition lt_js :: "real option \<Rightarrow> real option \<Rightarrow> bool" where
  "lt_js a b =
     (case a of None \<Rightarrow> False | Some x \<Rightarrow> (case b of None \<Rightarrow> False | Some y \<Rightarrow> x < y))"

text \<open>
  The ray-casting loop once more. \<open>lon_j !== lon_i\<close> compares two vertex
  components, numbers or \<open>undefined\<close>, and \<open>undefined !== undefined\<close> is false.
\<close>

fun pip_loop_js :: "JsPoint \<Rightarrow> JsPoint \<Rightarrow> JsPolygon \<Rightarrow> bool \<Rightarrow> bool" where
  "pip_loop_js pt p_j [] inside = inside"
| "pip_loop_js pt p_j (p_i # rest) inside =
     (let lat = fst pt; lon = snd pt;
          lat_i = fst p_i; lon_i = snd p_i;
          lat_j = fst p_j; lon_j = snd p_j
      in pip_loop_js pt p_i rest
           (if gt_js lat_i lat \<noteq> gt_js lat_j lat then
              (let intersectLon =
                 (if lon_j \<noteq> lon_i
                  then lift2 (+) (lift2 (/) (lift2 (*) (lift2 (-) lat lat_i) (lift2 (-) lon_j lon_i))
                                          (lift2 (-) lat_j lat_i))
                                 lon_i
                  else lon_i)
               in if lt_js lon intersectLon then \<not> inside else inside)
            else inside))"

definition pointInPolygon_js :: "JsPoint \<Rightarrow> JsPolygon \<Rightarrow> bool" where
  "pointInPolygon_js pt polygon =
     (if length polygon < 3 then False
      else pip_loop_js pt (last polygon) polygon False)"

fun notInAnyHole_js :: "JsPoint \<Rightarrow> JsPolygon list \<Rightarrow> bool" where
  "notInAnyHole_js pt [] = True"
| "notInAnyHole_js pt (hole # holes) =
     (if pointInPolygon_js pt hole then False else notInAnyHole_js pt holes)"

definition pointInPolygonWithHoles_js :: "JsPoint \<Rightarrow> JsPolygon \<Rightarrow> JsPolygon list \<Rightarrow> bool" where
  "pointInPolygonWithHoles_js pt exterior holes =
     (if \<not> pointInPolygon_js pt exterior then False else notInAnyHole_js pt holes)"

text \<open>A distance is a \<open>dist\<close>, or \<open>None\<close> for \<open>NaN\<close>; \<open>Math.min\<close> with a \<open>NaN\<close> is \<open>NaN\<close>.\<close>

definition dmin_js :: "dist option \<Rightarrow> dist option \<Rightarrow> dist option" where
  "dmin_js a b =
     (case a of None \<Rightarrow> None | Some x \<Rightarrow> (case b of None \<Rightarrow> None | Some y \<Rightarrow> Some (dmin x y)))"

definition segmentDistance_js :: "JsPoint \<Rightarrow> JsPoint \<Rightarrow> JsPoint \<Rightarrow> real option" where
  "segmentDistance_js pt p_i p_j =
     (let lat = fst pt; lon = snd pt;
          lat_i = fst p_i; lon_i = snd p_i;
          lat_j = fst p_j; lon_j = snd p_j;
          dx = lift2 (-) lon_j lon_i;
          dy = lift2 (-) lat_j lat_i
      in if dx = Some 0 \<and> dy = Some 0
         then map_option sqrt
                (lift2 (+) (map_option (\<lambda>v. v\<^sup>2) (lift2 (-) lat lat_i))
                           (map_option (\<lambda>v. v\<^sup>2) (lift2 (-) lon lon_i)))
         else (let t = lift2 max (Some 0)
                         (lift2 min (Some 1)
                            (lift2 (/) (lift2 (+) (lift2 (*) (lift2 (-) lat lat_i) dy)
                                                  (lift2 (*) (lift2 (-) lon lon_i) dx))
                                       (lift2 (+) (lift2 (*) dx dx) (lift2 (*) dy dy))));
                   projLat = lift2 (+) lat_i (lift2 (*) t dy);
                   projLon = lift2 (+) lon_i (lift2 (*) t dx)
               in map_option sqrt
                    (lift2 (+) (map_option (\<lambda>v. v\<^sup>2) (lift2 (-) lat projLat))
                               (map_option (\<lambda>v. v\<^sup>2) (lift2 (-) lon projLon)))))"

fun dist_loop_js :: "JsPoint \<Rightarrow> JsPoint \<Rightarrow> JsPolygon \<Rightarrow> dist option \<Rightarrow> dist option" where
  "dist_loop_js pt p_j [] minDist = minDist"
| "dist_loop_js pt p_j (p_i # rest) minDist =
     dist_loop_js pt p_i rest
       (dmin_js minDist (map_option Finite (segmentDistance_js pt p_i p_j)))"

definition distanceToPolygonEdge_js :: "JsPoint \<Rightarrow> JsPolygon \<Rightarrow> dist option" where
  "distanceToPolygonEdge_js pt polygon =
     (if polygon = [] then Some Infinity
      else dist_loop_js pt (last polygon) polygon (Some Infinity))"

definition minEdgeDistance_js :: "JsPoint \<Rightarrow> JsPolygon \<Rightarrow> JsPolygon list \<Rightarrow> dist option" where
  "minEdgeDistance_js pt polygon holes =
     foldl (\<lambda>minDist hole. dmin_js minDist (distanceToPolygonEdge_js pt hole))
           (distanceToPolygonEdge_js pt polygon) holes"

text \<open>
  \<open>minDist >= c\<close>, false for \<open>NaN\<close>; and \<open>minDist\<close> as an operand, which in the
  branches below is a real or \<open>NaN\<close>.
\<close>

fun ge_js :: "dist option \<Rightarrow> real \<Rightarrow> bool" where
  "ge_js None c = False"
| "ge_js (Some Infinity) c = True"
| "ge_js (Some (Finite d)) c = (d \<ge> c)"

fun operand_js :: "dist option \<Rightarrow> real option" where
  "operand_js (Some (Finite d)) = Some d"
| "operand_js (Some Infinity) = None"
| "operand_js None = None"

definition baseConfidence_js :: "dist option \<Rightarrow> real option" where
  "baseConfidence_js minDist =
     (if ge_js minDist 0.1 then Some 0.98
      else if ge_js minDist 0.05
        then map_option (\<lambda>d. 0.88 + (d - 0.05) / 0.05 * 0.10) (operand_js minDist)
      else if ge_js minDist 0.01
        then map_option (\<lambda>d. 0.75 + (d - 0.01) / 0.04 * 0.13) (operand_js minDist)
      else map_option (\<lambda>d. 0.70 + d / 0.01 * 0.05) (operand_js minDist))"

definition calculateConfidence_js ::
  "JsPoint \<Rightarrow> JsPolygon \<Rightarrow> JsPolygon list \<Rightarrow> real \<Rightarrow> real option" where
  "calculateConfidence_js pt polygon holes candidateCount =
     (let base = baseConfidence_js (minEdgeDistance_js pt polygon holes);
          base' = (if candidateCount > 1
                   then map_option (\<lambda>b. b - min 0.2 ((candidateCount - 1) * 0.05)) base
                   else base)
      in map_option (\<lambda>b. max 0.5 (min 1.0 b)) base')"

section \<open>The data store (src/data/loader.ts)\<close>

text \<open>
  Metadata fields are optional strings (\<open>None\<close> for a field that is null or
  absent, which the reverse lookup guards against with \<open>|| ''\<close>). The store is
  parametrised by the type \<open>'c\<close> of a coordinate: \<open>Point\<close> for a store whose
  coordinate arrays are \<open>[lat, lon]\<close> pairs, as the declared format has it, and
  \<open>real list\<close> for the arrays as they come, of any length. A country id stands for its decimal key, so that
  \<open>parseInt\<close> and \<open>toString\<close> are inverse to each other. The metadata table is
  the list of its entries in the order in which \<open>Object.entries\<close> and
  \<open>Object.keys\<close> enumerate them.
\<close>

record CountryMetadata =
  md_name :: "string option"
  md_iso2 :: "string option"
  md_iso3 :: "string option"
  md_continent :: "string option"
  md_timezone :: "string option"

record 'c PolygonData =
  exterior :: "'c list option"
  holes :: "'c list list option"
  multi :: bool
  exteriors :: "'c list list option"

record 'c DataLoader =
  geohashIndex :: "string \<rightharpoonup> nat list"
  polygons :: "nat \<rightharpoonup> 'c PolygonData"
  metadata :: "(nat \<times> CountryMetadata) list"

text \<open>\<open>Array.from(new Set(xs))\<close>: the first occurrence of each element stays.\<close>

definition dedupe :: "'a list \<Rightarrow> 'a list" where
  "dedupe xs = rev (remdups (rev xs))"

text \<open>The prefix loop of \<open>getCandidateCountries\<close>, from \<open>prefixLen\<close> down to 1.\<close>

fun prefixLookup :: "(string \<rightharpoonup> nat list) \<Rightarrow> string \<Rightarrow> nat \<Rightarrow> nat list" where
  "prefixLookup index geohash 0 = []"
| "prefixLookup index geohash (Suc n) =
     (case index (take (Suc n) geohash) of
        Some cs \<Rightarrow> cs
      | None \<Rightarrow> prefixLookup index geohash n)"

definition getCandidateCountries :: "'c DataLoader \<Rightarrow> string \<Rightarrow> nat list" where
  "getCandidateCountries L geohash =
     (let candidates = (case geohashIndex L geohash of Some cs \<Rightarrow> cs | None \<Rightarrow> []);
          candidates' = (if length candidates = 0
                         then prefixLookup (geohashIndex L) geohash (length geohash)
                         else candidates)
      in dedupe candidates')"

definition getPolygon :: "'c DataLoader \<Rightarrow> nat \<Rightarrow> 'c PolygonData option" where
  "getPolygon L countryId = polygons L countryId"

definition getMetadata :: "'c DataLoader \<Rightarrow> nat \<Rightarrow> CountryMetadata option" where
  "getMetadata L countryId = map_of (metadata L) countryId"

section \<open>Forward resolution (src/resolver/index.ts)\<close>

record 'n ResolutionResult =
  countryId :: "nat option"
  countryName :: "string option"
  iso2 :: "string option"
  iso3 :: "string option"
  continent :: "string option"
  timezone :: "string option"
  confidence :: 'n

definition noMatch :: "real ResolutionResult" where
  "noMatch = \<lparr>countryId = None, countryName = None, iso2 = None, iso3 = None,
              continent = None, timezone = None, confidence = 0.0\<rparr>"

text \<open>The exterior rings to test: all of them for a multi-polygon, else the one.\<close>

definition exteriorsOf :: "'c PolygonData \<Rightarrow> 'c list list" where
  "exteriorsOf pd =
     (if multi pd \<and> exteriors pd \<noteq> None then the (exteriors pd)
      else if exterior pd \<noteq> None then [the (exterior pd)]
      else [])"

text \<open>The holes that are kept: the non-empty ones, none when the field is absent.\<close>

definition holesOf :: "'c PolygonData \<Rightarrow> 'c list list" where
  "holesOf pd = (case holes pd of None \<Rightarrow> [] | Some hs \<Rightarrow> filter (\<lambda>h. length h > 0) hs)"

text \<open>
  The loop over the exteriors of one country: an empty exterior is skipped,
  the first exterior that contains the point ends the loop.
\<close>

fun firstMatchingExterior :: "Point \<Rightarrow> Polygon list \<Rightarrow> Polygon list \<Rightarrow> Polygon option" where
  "firstMatchingExterior pt hs [] = None"
| "firstMatchingExterior pt hs (ext # rest) =
     (if length ext = 0 then firstMatchingExterior pt hs rest
      else if pointInPolygonWithHoles pt ext hs then Some ext
      else firstMatchingExterior pt hs rest)"

text \<open>Step 4: the candidates in order; \<open>n\<close> is \<open>candidates.length\<close>.\<close>

fun primaryMatches :: "Point \<Rightarrow> Point DataLoader \<Rightarrow> real \<Rightarrow> nat list \<Rightarrow> (nat \<times> real) list" where
  "primaryMatches pt L n [] = []"
| "primaryMatches pt L n (cid # rest) =
     (case getPolygon L cid of
        None \<Rightarrow> primaryMatches pt L n rest
      | Some pd \<Rightarrow>
          (case firstMatchingExterior pt (holesOf pd) (exteriorsOf pd) of
             None \<Rightarrow> primaryMatches pt L n rest
           | Some ext \<Rightarrow>
               (cid, calculateConfidence pt ext (holesOf pd) n) # primaryMatches pt L n rest))"

text \<open>Step 5: every key of the metadata table that is not a candidate.\<close>

fun fallbackMatches ::
  "Point \<Rightarrow> Point DataLoader \<Rightarrow> nat list \<Rightarrow> (nat \<times> CountryMetadata) list
     \<Rightarrow> (nat \<times> real) list" where
  "fallbackMatches pt L candidates [] = []"
| "fallbackMatches pt L candidates ((cid, m) # rest) =
     (if cid \<in> set candidates then fallbackMatches pt L candidates rest
      else case polygons L cid of
        None \<Rightarrow> fallbackMatches pt L candidates rest
      | Some pd \<Rightarrow>
          (case firstMatchingExterior pt (holesOf pd) (exteriorsOf pd) of
             None \<Rightarrow> fallbackMatches pt L candidates rest
           | Some ext \<Rightarrow>
               (cid, calculateConfidence pt ext (holesOf pd) 1 * 0.95)
                 # fallbackMatches pt L candidates rest))"

definition findMatches :: "Point \<Rightarrow> Point DataLoader \<Rightarrow> nat list \<Rightarrow> (nat \<times> real) list" where
  "findMatches pt L candidates =
     (let matches = primaryMatches pt L (real (length candidates)) candidates
      in if length matches = 0 then fallbackMatches pt L candidates (metadata L)
         else matches)"

text \<open>
  The insertion sequence of the set \<open>extendedNeighbors\<close>: each neighbour, then
  its own neighbours.
\<close>

fun extendedList :: "string list \<Rightarrow> error + string list" where
  "extendedList [] = Inr []"
| "extendedList (n # ns) =
     (case getNeighbors n of
        Inl e \<Rightarrow> Inl e
      | Inr es \<Rightarrow> (case extendedList ns of
                     Inl e \<Rightarrow> Inl e
                   | Inr later \<Rightarrow> Inr (n # es @ later)))"

text \<open>Steps 2 to 3c: the candidate ladder.\<close>

definition candidatesStep3 :: "'c DataLoader \<Rightarrow> string \<Rightarrow> nat list \<Rightarrow> error + nat list" where
  "candidatesStep3 L geohash candidates =
     (if length candidates = 0 then
        (case getNeighbors geohash of
           Inl e \<Rightarrow> Inl e
         | Inr neighbors \<Rightarrow>
             Inr (dedupe (concat (map (getCandidateCountries L) neighbors))))
      else Inr candidates)"

definition candidatesStep3b :: "'c DataLoader \<Rightarrow> string \<Rightarrow> nat list \<Rightarrow> error + nat list" where
  "candidatesStep3b L geohash candidates =
     (if length candidates = 0 then
        (case getNeighbors geohash of
           Inl e \<Rightarrow> Inl e
         | Inr neighbors \<Rightarrow>
             (case extendedList neighbors of
                Inl e \<Rightarrow> Inl e
              | Inr ext \<Rightarrow>
                  Inr (dedupe (concat (map (getCandidateCountries L)
                                 (filter (\<lambda>h. h \<noteq> geohash) (dedupe ext)))))))
      else Inr candidates)"

definition candidatesStep3c :: "'c DataLoader \<Rightarrow> nat list \<Rightarrow> nat list" where
  "candidatesStep3c L candidates =
     (if length candidates = 0 then map fst (metadata L) else candidates)"

definition findCandidates :: "'c DataLoader \<Rightarrow> string \<Rightarrow> error + nat list" where
  "findCandidates L geohash =
     (case candidatesStep3 L geohash (getCandidateCountries L geohash) of
        Inl e \<Rightarrow> Inl e
      | Inr c3 \<Rightarrow>
          (case candidatesStep3b L geohash c3 of
             Inl e \<Rightarrow> Inl e
           | Inr c3b \<Rightarrow> Inr (candidatesStep3c L c3b)))"

text \<open>
  \<open>matches.sort((a, b) => b.confidence - a.confidence)\<close> is a stable sort by
  falling confidence; \<open>bestMatch\<close> is its first element.
\<close>

definition bestMatch :: "(nat \<times> real) list \<Rightarrow> nat \<times> real" where
  "bestMatch matches = hd (sort_key (\<lambda>m. - snd m) matches)"

definition selectBest ::
  "'c DataLoader \<Rightarrow> (nat \<times> real) list \<Rightarrow> error + real ResolutionResult" where
  "selectBest L matches =
     (if length matches = 0 then Inr noMatch
      else (let best = bestMatch matches in
            case getMetadata L (fst best) of
              None \<Rightarrow> Inl (MetadataNotFound (fst best))
            | Some m \<Rightarrow>
                Inr \<lparr>countryId = Some (fst best), countryName = md_name m,
                     iso2 = md_iso2 m, iso3 = md_iso3 m,
                     continent = md_continent m, timezone = md_timezone m,
                     confidence = snd best\<rparr>))"

definition resolve ::
  "real \<Rightarrow> real \<Rightarrow> Point DataLoader \<Rightarrow> error + real ResolutionResult" where
  "resolve la lo L =
     (case encode la lo GEOHASH_PRECISION of
        Inl e \<Rightarrow> Inl e
      | Inr geohash \<Rightarrow>
          (case findCandidates L geohash of
             Inl e \<Rightarrow> Inl e
           | Inr candidates \<Rightarrow>
               if length candidates = 0 then Inr noMatch
               else selectBest L (findMatches (la, lo) L candidates)))"

section \<open>Reverse resolution (src/resolver/reverse.ts)\<close>

text \<open>
  Strings are lists of 8-bit characters read as ASCII: \<open>trim\<close> strips tab, line
  feed, vertical tab, form feed, carriage return and space; the case
  conversions act on the 26 letters and leave every other character alone.
\<close>

definition isWhitespace :: "char \<Rightarrow> bool" where
  "isWhitespace c =
     (c \<in> set [CHR 0x09, CHR 0x0A, CHR 0x0B, CHR 0x0C, CHR 0x0D, CHR '' ''])"

definition trim :: "string \<Rightarrow> string" where
  "trim s = rev (dropWhile isWhitespace (rev (dropWhile isWhitespace s)))"

definition lowerLetters :: string where
  "lowerLetters = ''abcdefghijklmnopqrstuvwxyz''"

definition upperLetters :: string where
  "upperLetters = ''ABCDEFGHIJKLMNOPQRSTUVWXYZ''"

definition toUpperCase :: "string \<Rightarrow> string" where
  "toUpperCase s =
     map (\<lambda>c. case map_of (zip lowerLetters upperLetters) c of Some u \<Rightarrow> u | None \<Rightarrow> c) s"

definition toLowerCase :: "string \<Rightarrow> string" where
  "toLowerCase s =
     map (\<lambda>c. case map_of (zip upperLetters lowerLetters) c of Some l \<Rightarrow> l | None \<Rightarrow> c) s"

text \<open>\<open>s.replace(/x/g, y)\<close> for single characters.\<close>

definition replaceAll :: "char \<Rightarrow> char \<Rightarrow> string \<Rightarrow> string" where
  "replaceAll x y s = map (\<lambda>c. if c = x then y else c) s"

definition normalizeCountryName :: "string \<Rightarrow> string" where
  "normalizeCountryName nm =
     replaceAll (CHR ''-'') (CHR '' '') (replaceAll (CHR ''_'') (CHR '' '')
       (toLowerCase (trim nm)))"

text \<open>\<open>x || ''\<close> on an optional string.\<close>

definition orEmpty :: "string option \<Rightarrow> string" where
  "orEmpty x = (case x of None \<Rightarrow> [] | Some s \<Rightarrow> s)"

text \<open>\<open>a.includes(b)\<close>: \<open>b\<close> occurs in \<open>a\<close> as a contiguous run.\<close>

fun str_includes :: "string \<Rightarrow> string \<Rightarrow> bool" where
  "str_includes [] b = (b = [])"
| "str_includes (x # xs) b = (if prefix b (x # xs) then True else str_includes xs b)"

text \<open>The first loop of \<open>findCountryByNameOrIso\<close>.\<close>

fun exactLoop ::
  "string \<Rightarrow> string \<Rightarrow> (nat \<times> CountryMetadata) list \<Rightarrow> (nat \<times> CountryMetadata) option" where
  "exactLoop normalizedInput normalizedName [] = None"
| "exactLoop normalizedInput normalizedName ((cid, m) # rest) =
     (if toUpperCase (orEmpty (md_iso2 m)) = normalizedInput then Some (cid, m)
      else if toUpperCase (orEmpty (md_iso3 m)) = normalizedInput then Some (cid, m)
      else if normalizeCountryName (orEmpty (md_name m)) = normalizedName then Some (cid, m)
      else exactLoop normalizedInput normalizedName rest)"

text \<open>The second loop: the partial match.\<close>

fun partialLoop ::
  "string \<Rightarrow> (nat \<times> CountryMetadata) list \<Rightarrow> (nat \<times> CountryMetadata) option" where
  "partialLoop normalizedName [] = None"
| "partialLoop normalizedName ((cid, m) # rest) =
     (let normalizedMetaName = normalizeCountryName (orEmpty (md_name m))
      in if str_includes normalizedName normalizedMetaName
            \<or> str_includes normalizedMetaName normalizedName
         then Some (cid, m)
         else partialLoop normalizedName rest)"

definition findCountryByNameOrIso ::
  "string \<Rightarrow> 'c DataLoader \<Rightarrow> (nat \<times> CountryMetadata) option" where
  "findCountryByNameOrIso countryInput L =
     (let normalizedInput = toUpperCase (trim countryInput);
          normalizedName = normalizeCountryName countryInput
      in case exactLoop normalizedInput normalizedName (metadata L) of
           Some r \<Rightarrow> Some r
         | None \<Rightarrow> partialLoop normalizedName (metadata L))"

text \<open>\<open>getPolygonCentroid\<close> of src/utils/polygon.ts.\<close>

definition getPolygonCentroid :: "Polygon \<Rightarrow> Point" where
  "getPolygonCentroid polygon =
     (if length polygon = 0 then (0.0, 0.0)
      else (sum_list (map fst polygon) / real (length polygon),
            sum_list (map snd polygon) / real (length polygon)))"

record ReverseResolutionResult =
  rv_latitude :: "real option"
  rv_longitude :: "real option"
  rv_countryName :: "string option"
  rv_iso2 :: "string option"
  rv_iso3 :: "string option"
  rv_continent :: "string option"
  rv_timezone :: "string option"
  rv_confidence :: real

definition resolveByCountry ::
  "string \<Rightarrow> Point DataLoader \<Rightarrow> error + ReverseResolutionResult" where
  "resolveByCountry countryInput L =
     (case findCountryByNameOrIso countryInput L of
        None \<Rightarrow> Inl (CountryNotFound countryInput)
      | Some (cid, m) \<Rightarrow>
          (case getPolygon L cid of
             None \<Rightarrow> Inl (PolygonNotFound cid)
           | Some pd \<Rightarrow>
               (let exts = exteriorsOf pd in
                if length exts = 0 then Inl (InvalidPolygon cid)
                else (let allCentroids =
                            map getPolygonCentroid (filter (\<lambda>e. length e > 0) exts)
                      in if length allCentroids = 0 then Inl (NoValidExteriors cid)
                         else Inr \<lparr>rv_latitude =
                                     Some (sum_list (map fst allCentroids)
                                             / real (length allCentroids)),
                                   rv_longitude =
                                     Some (sum_list (map snd allCentroids)
                                             / real (length allCentroids)),
                                   rv_countryName = md_name m,
                                   rv_iso2 = md_iso2 m, rv_iso3 = md_iso3 m,
                                   rv_continent = md_continent m,
                                   rv_timezone = md_timezone m,
                                   rv_confidence = 1.0\<rparr>))))"

subsection \<open>The two tiers of the reverse lookup as predicates on a record\<close>

definition exactMatch :: "string \<Rightarrow> nat \<times> CountryMetadata \<Rightarrow> bool" where
  "exactMatch countryInput r =
     (toUpperCase (orEmpty (md_iso2 (snd r))) = toUpperCase (trim countryInput)
      \<or> toUpperCase (orEmpty (md_iso3 (snd r))) = toUpperCase (trim countryInput)
      \<or> normalizeCountryName (orEmpty (md_name (snd r))) = normalizeCountryName countryInput)"

definition substringMatch :: "string \<Rightarrow> nat \<times> CountryMetadata \<Rightarrow> bool" where
  "substringMatch countryInput r =
     (str_includes (normalizeCountryName countryInput)
               (normalizeCountryName (orEmpty (md_name (snd r))))
      \<or> str_includes (normalizeCountryName (orEmpty (md_name (snd r))))
                  (normalizeCountryName countryInput))"

subsection \<open>Loop invariants of the codec\<close>

text \<open>The character under construction is a 5-bit value; what was pushed is base-32.\<close>

definition enc_ok :: "enc_state \<Rightarrow> bool" where
  "enc_ok s = (e_ch s < 32 \<and> list_all (\<lambda>c. c \<in> set BASE32) (e_geohash s))"

text \<open>Both ranges of the decoder stay proper intervals inside the globe.\<close>

definition dec_ok :: "dec_state \<Rightarrow> bool" where
  "dec_ok s =
     (fst (d_latRange s) < snd (d_latRange s) \<and> fst (d_lonRange s) < snd (d_lonRange s)
      \<and> -90 \<le> fst (d_latRange s) \<and> snd (d_latRange s) \<le> 90
      \<and> -180 \<le> fst (d_lonRange s) \<and> snd (d_lonRange s) \<le> 180)"

subsection \<open>What the forward pipeline selects from\<close>


text \<open>
  What the exhaustive fallback records for one metadata entry: nothing for a
  candidate, for a country without polygon or without an exterior that
  contains the point; else the score of the first such exterior at candidate
  count 1, times 0.95.
\<close>

definition fallbackEntry ::
  "Point \<Rightarrow> Point DataLoader \<Rightarrow> nat list \<Rightarrow> nat \<times> CountryMetadata
     \<Rightarrow> (nat \<times> real) option" where
  "fallbackEntry pt L candidates r =
     (if fst r \<in> set candidates then None
      else case polygons L (fst r) of
        None \<Rightarrow> None
      | Some pd \<Rightarrow>
          (case find (\<lambda>ext. ext \<noteq> [] \<and> pointInPolygonWithHoles pt ext (holesOf pd))
                  (exteriorsOf pd) of
             None \<Rightarrow> None
           | Some ext \<Rightarrow> Some (fst r, calculateConfidence pt ext (holesOf pd) 1 * 0.95)))"

section \<open>Forward resolution on every number and every coordinate array\<close>

text \<open>
  \<open>[coord[0], coord[1]]\<close>: an entry that the array lacks is \<open>undefined\<close>. The
  first loop converts an exterior with a length check that throws; the holes
  and the fallback loop convert without it.
\<close>

definition entry :: "real list \<Rightarrow> nat \<Rightarrow> real option" where
  "entry coord i = (if i < length coord then Some (coord ! i) else None)"

definition toPoint :: "real list \<Rightarrow> JsPoint" where
  "toPoint coord = (entry coord 0, entry coord 1)"

fun toPointsChecked :: "real list list \<Rightarrow> error + JsPolygon" where
  "toPointsChecked [] = Inr []"
| "toPointsChecked (coord # rest) =
     (if length coord \<ge> 2
      then (case toPointsChecked rest of
              Inl e \<Rightarrow> Inl e
            | Inr ps \<Rightarrow> Inr ((entry coord 0, entry coord 1) # ps))
      else Inl (InvalidCoordinate coord))"

definition holes_js :: "real list PolygonData \<Rightarrow> JsPolygon list" where
  "holes_js pd = map (map toPoint) (holesOf pd)"

text \<open>The loop over the exteriors of one candidate; the conversion may throw.\<close>

fun firstMatchingExterior_checked ::
  "JsPoint \<Rightarrow> JsPolygon list \<Rightarrow> real list list list \<Rightarrow> error + JsPolygon option" where
  "firstMatchingExterior_checked pt hs [] = Inr None"
| "firstMatchingExterior_checked pt hs (ext # rest) =
     (if length ext = 0 then firstMatchingExterior_checked pt hs rest
      else case toPointsChecked ext of
        Inl e \<Rightarrow> Inl e
      | Inr exteriorPolygon \<Rightarrow>
          if pointInPolygonWithHoles_js pt exteriorPolygon hs then Inr (Some exteriorPolygon)
          else firstMatchingExterior_checked pt hs rest)"

text \<open>The same loop in the fallback scan, where nothing throws.\<close>

fun firstMatchingExterior_js ::
  "JsPoint \<Rightarrow> JsPolygon list \<Rightarrow> real list list list \<Rightarrow> JsPolygon option" where
  "firstMatchingExterior_js pt hs [] = None"
| "firstMatchingExterior_js pt hs (ext # rest) =
     (if length ext = 0 then firstMatchingExterior_js pt hs rest
      else if pointInPolygonWithHoles_js pt (map toPoint ext) hs then Some (map toPoint ext)
      else firstMatchingExterior_js pt hs rest)"

fun primaryMatches_js ::
  "JsPoint \<Rightarrow> real list DataLoader \<Rightarrow> real \<Rightarrow> nat list \<Rightarrow> error + (nat \<times> real option) list" where
  "primaryMatches_js pt L n [] = Inr []"
| "primaryMatches_js pt L n (cid # rest) =
     (case getPolygon L cid of
        None \<Rightarrow> primaryMatches_js pt L n rest
      | Some pd \<Rightarrow>
          (case firstMatchingExterior_checked pt (holes_js pd) (exteriorsOf pd) of
             Inl e \<Rightarrow> Inl e
           | Inr None \<Rightarrow> primaryMatches_js pt L n rest
           | Inr (Some ext) \<Rightarrow>
               (case primaryMatches_js pt L n rest of
                  Inl e \<Rightarrow> Inl e
                | Inr ms \<Rightarrow> Inr ((cid, calculateConfidence_js pt ext (holes_js pd) n) # ms))))"

fun fallbackMatches_js ::
  "JsPoint \<Rightarrow> real list DataLoader \<Rightarrow> nat list \<Rightarrow> (nat \<times> CountryMetadata) list
     \<Rightarrow> (nat \<times> real option) list" where
  "fallbackMatches_js pt L candidates [] = []"
| "fallbackMatches_js pt L candidates ((cid, m) # rest) =
     (if cid \<in> set candidates then fallbackMatches_js pt L candidates rest
      else case polygons L cid of
        None \<Rightarrow> fallbackMatches_js pt L candidates rest
      | Some pd \<Rightarrow>
          (case firstMatchingExterior_js pt (holes_js pd) (exteriorsOf pd) of
             None \<Rightarrow> fallbackMatches_js pt L candidates rest
           | Some ext \<Rightarrow>
               (cid, lift2 (*) (calculateConfidence_js pt ext (holes_js pd) 1) (Some 0.95))
                 # fallbackMatches_js pt L candidates rest))"

definition findMatches_js ::
  "JsPoint \<Rightarrow> real list DataLoader \<Rightarrow> nat list \<Rightarrow> error + (nat \<times> real option) list" where
  "findMatches_js pt L candidates =
     (case primaryMatches_js pt L (real (length candidates)) candidates of
        Inl e \<Rightarrow> Inl e
      | Inr matches \<Rightarrow>
          if length matches = 0 then Inr (fallbackMatches_js pt L candidates (metadata L))
          else Inr matches)"

text \<open>
  The sort and \<open>matches[0]\<close>. With numbers for all confidences it is the
  stable sort by falling confidence; a single match is not compared at all.
  With a \<open>NaN\<close> confidence among several matches the comparator returns \<open>NaN\<close>,
  and the model leaves open which match comes first.
\<close>

definition bestMatch_js :: "(nat \<times> real option) list \<Rightarrow> (nat \<times> real option) option" where
  "bestMatch_js matches =
     (if list_all (\<lambda>m. snd m \<noteq> None) matches
      then Some (hd (sort_key (\<lambda>m. - the (snd m)) matches))
      else if length matches = 1 then Some (hd matches)
      else None)"

datatype 'a outcome = Raises error | Returns 'a | OrderOpen

definition noMatch_js :: "real option ResolutionResult" where
  "noMatch_js = \<lparr>countryId = None, countryName = None, iso2 = None, iso3 = None,
                 continent = None, timezone = None, confidence = Some 0.0\<rparr>"

definition selectBest_js ::
  "'c DataLoader \<Rightarrow> (nat \<times> real option) list \<Rightarrow> real option ResolutionResult outcome" where
  "selectBest_js L matches =
     (if length matches = 0 then Returns noMatch_js
      else case bestMatch_js matches of
        None \<Rightarrow> OrderOpen
      | Some best \<Rightarrow>
          (case getMetadata L (fst best) of
             None \<Rightarrow> Raises (MetadataNotFound (fst best))
           | Some m \<Rightarrow>
               Returns \<lparr>countryId = Some (fst best), countryName = md_name m,
                         iso2 = md_iso2 m, iso3 = md_iso3 m,
                         continent = md_continent m, timezone = md_timezone m,
                         confidence = snd best\<rparr>))"

text \<open>The point \<open>[lat, lon]\<close> as the geometry sees it.\<close>

fun component :: "jsnum \<Rightarrow> real option" where
  "component (Num x) = Some x"
| "component NaN = None"
| "component PosInfinity = None"
| "component NegInfinity = None"

definition resolve_js ::
  "jsnum \<Rightarrow> jsnum \<Rightarrow> real list DataLoader \<Rightarrow> real option ResolutionResult outcome" where
  "resolve_js la lo L =
     (case encode_js la lo GEOHASH_PRECISION of
        Inl e \<Rightarrow> Raises e
      | Inr geohash \<Rightarrow>
          (case findCandidates L geohash of
             Inl e \<Rightarrow> Raises e
           | Inr candidates \<Rightarrow>
               if length candidates = 0 then Returns noMatch_js
               else (case findMatches_js (component la, component lo) L candidates of
                       Inl e \<Rightarrow> Raises e
                     | Inr matches \<Rightarrow> selectBest_js L matches)))"




text \<open>A ring whose coordinate arrays all have at least two entries.\<close>

definition wellFormedRing :: "real list list \<Rightarrow> bool" where
  "wellFormedRing ext = list_all (\<lambda>coord. length coord \<ge> 2) ext"

subsection \<open>A store of pairs as a store of arrays\<close>

text \<open>
  The pair \<open>(lat, lon)\<close> is the array \<open>[lat, lon]\<close>; a real is itself as a number
  that may be \<open>NaN\<close>.
\<close>

definition embedPoint :: "Point \<Rightarrow> JsPoint" where
  "embedPoint p = (Some (fst p), Some (snd p))"

definition rawCoord :: "Point \<Rightarrow> real list" where
  "rawCoord p = [fst p, snd p]"

definition rawPolygonData :: "Point PolygonData \<Rightarrow> real list PolygonData" where
  "rawPolygonData pd =
     \<lparr>exterior = map_option (map rawCoord) (exterior pd),
      holes = map_option (map (map rawCoord)) (holes pd),
      multi = multi pd,
      exteriors = map_option (map (map rawCoord)) (exteriors pd)\<rparr>"

definition rawStore :: "Point DataLoader \<Rightarrow> real list DataLoader" where
  "rawStore L =
     \<lparr>geohashIndex = geohashIndex L,
      polygons = (\<lambda>cid. map_option rawPolygonData (polygons L cid)),
      metadata = metadata L\<rparr>"

definition embedResult :: "real ResolutionResult \<Rightarrow> real option ResolutionResult" where
  "embedResult r =
     \<lparr>countryId = countryId r, countryName = countryName r, iso2 = iso2 r, iso3 = iso3 r,
      continent = continent r, timezone = timezone r, confidence = Some (confidence r)\<rparr>"

definition embedMatch :: "nat \<times> real \<Rightarrow> nat \<times> real option" where
  "embedMatch m = (fst m, Some (snd m))"

subsection \<open>Example stores\<close>

definition unitSquare :: Polygon where
  "unitSquare = [(0,0),(0,1),(1,1),(1,0)]"

definition farSquare :: Polygon where
  "farSquare = [(2,2),(2,3),(3,3),(3,2)]"

definition squareland :: CountryMetadata where
  "squareland =
     \<lparr>md_name = Some ''Squareland'', md_iso2 = Some ''SQ'', md_iso3 = Some ''SQL'',
      md_continent = Some ''Europe'', md_timezone = Some ''UTC''\<rparr>"

definition farland :: CountryMetadata where
  "farland =
     \<lparr>md_name = Some ''Farland'', md_iso2 = Some ''FA'', md_iso3 = Some ''FAR'',
      md_continent = Some ''Europe'', md_timezone = Some ''UTC''\<rparr>"

text \<open>
  Two countries; the index knows the geohash that the code computes for the
  point (0.5, 0.5), and lists only the country that does not contain it.
\<close>

definition exampleStore :: "Point DataLoader" where
  "exampleStore =
     \<lparr>geohashIndex = [''h003w3'' \<mapsto> [9]],
      polygons =
        [7 \<mapsto> \<lparr>exterior = Some unitSquare, holes = None, multi = False, exteriors = None\<rparr>,
         9 \<mapsto> \<lparr>exterior = Some farSquare, holes = None, multi = False, exteriors = None\<rparr>],
      metadata = [(7, squareland), (9, farland)]\<rparr>"


text \<open>
  A metadata table in which the first record matches the input \<open>us\<close> by name
  only and the second by ISO2.
\<close>

definition nameRecord :: "nat \<times> CountryMetadata" where
  "nameRecord =
     (1, \<lparr>md_name = Some ''Us'', md_iso2 = Some ''XX'', md_iso3 = Some ''XXX'',
          md_continent = None, md_timezone = None\<rparr>)"

definition isoRecord :: "nat \<times> CountryMetadata" where
  "isoRecord =
     (2, \<lparr>md_name = Some ''United States'', md_iso2 = Some ''US'', md_iso3 = Some ''USA'',
          md_continent = None, md_timezone = None\<rparr>)"

definition tierStore :: "Point DataLoader" where
  "tierStore =
     \<lparr>geohashIndex = Map.empty, polygons = Map.empty, metadata = [nameRecord, isoRecord]\<rparr>"



section \<open>Properties of the codec\<close>

lemma or_bit_bound:
  fixes ch :: nat
  assumes "ch < 32" "b \<le> 4"
  shows "ch OR 2 ^ b < 32"
proof -
  have "(2::int) ^ b \<le> 2 ^ 4"
    using assms(2) by (intro power_increasing) auto
  then have pb: "int (2 ^ b) < 2 ^ 5"
    by simp
  have "int ch OR int (2 ^ b) < 2 ^ 5"
    by (rule OR_upper) (use assms(1) pb in auto)
  then have "int (ch OR 2 ^ b) < 32"
    by (simp add: of_nat_or_eq)
  then show ?thesis by linarith
qed

lemma encode_bit_bound:
  fixes ch :: nat
  assumes "ch < 32"
  shows "ch OR 2 ^ (bitsPerChar - Suc (k mod bitsPerChar)) < 32"
  by (rule or_bit_bound [OF assms]) (simp add: bitsPerChar_def)

lemma foldl_invariant:
  assumes "P s" and "\<And>t x. P t \<Longrightarrow> P (f t x)"
  shows "P (foldl f s xs)"
  using assms(1) by (induction xs arbitrary: s) (auto intro: assms(2))

lemma length_BASE32: "length BASE32 = 32"
  by (simp add: BASE32_def)

lemma BASE32_nth_mem: "n < 32 \<Longrightarrow> BASE32 ! n \<in> set BASE32"
  using length_BASE32 by (metis nth_mem)

lemma encode_step_ok: "enc_ok s \<Longrightarrow> enc_ok (encode_step la lo s i)"
  by (auto simp: enc_ok_def encode_step_def Let_def encode_bit_bound BASE32_nth_mem)

lemma encode_init_ok: "enc_ok encode_init"
  by (simp add: enc_ok_def encode_init_def)

lemma encode_step_length:
  "length (e_geohash (encode_step la lo s i)) =
     length (e_geohash s) + (if Suc i mod 5 = 0 then 1 else 0)"
  by (simp add: encode_step_def Let_def bitsPerChar_def)

lemma encode_loop_length:
  "length (e_geohash (foldl (encode_step la lo) encode_init [0..<k])) = k div 5"
proof (induction k)
  case 0
  then show ?case by (simp add: encode_init_def)
next
  case (Suc k)
  have "Suc k div 5 = k div 5 + (if Suc k mod 5 = 0 then 1 else 0)"
    by presburger
  with Suc show ?case by (simp add: encode_step_length)
qed

lemma encode_in_range:
  assumes "-90 \<le> la" "la \<le> 90" "-180 \<le> lo" "lo \<le> 180"
  shows "\<exists>g. encode la lo p = Inr g \<and> length g = p \<and> list_all (\<lambda>c. c \<in> set BASE32) g"
proof -
  let ?s = "foldl (encode_step la lo) encode_init [0..<p * bitsPerChar]"
  have "enc_ok ?s"
    by (rule foldl_invariant [where P = enc_ok]) (simp_all add: encode_init_ok encode_step_ok)
  moreover have "length (e_geohash ?s) = p"
    by (simp add: encode_loop_length bitsPerChar_def)
  moreover have "encode la lo p = Inr (e_geohash ?s)"
    using assms by (simp add: encode_def)
  ultimately show ?thesis by (simp add: enc_ok_def)
qed

lemma indexOf_mem: "c \<in> set xs \<Longrightarrow> \<exists>i. indexOf xs c = Some i"
  by (induction xs) auto

lemma decode_bit_ok: "dec_ok s \<Longrightarrow> dec_ok (decode_bit idx s j)"
  by (auto simp: dec_ok_def decode_bit_def Let_def field_simps)

lemma decode_chars_ok:
  "dec_ok s \<Longrightarrow> list_all (\<lambda>c. c \<in> set BASE32) g \<Longrightarrow>
     \<exists>t. decode_chars s g = Inr t \<and> dec_ok t"
proof (induction g arbitrary: s)
  case Nil
  then show ?case by simp
next
  case (Cons c cs)
  from Cons.prems(2) obtain idx where idx: "indexOf BASE32 c = Some idx"
    using indexOf_mem [of c BASE32] by auto
  have "dec_ok (foldl (decode_bit idx) s [0..<5])"
    by (rule foldl_invariant [where P = dec_ok]) (simp_all add: Cons.prems(1) decode_bit_ok)
  with Cons.IH [of "foldl (decode_bit idx) s [0..<5]"] Cons.prems(2) idx
  show ?case by simp
qed

lemma decode_valid:
  assumes "validGeohash g"
  shows "\<exists>d. decode g = Inr d \<and> fst (latRange d) < snd (latRange d)
           \<and> fst (lonRange d) < snd (lonRange d)"
proof -
  have "dec_ok decode_init" by (simp add: dec_ok_def decode_init_def)
  with assms obtain t where "decode_chars decode_init g = Inr t" "dec_ok t"
    using decode_chars_ok [of decode_init g] by (auto simp: validGeohash_def)
  with assms show ?thesis
    by (simp add: decode_def validGeohash_def dec_ok_def)
qed

lemma neighborOffsets_length:
  "a \<noteq> 0 \<Longrightarrow> b \<noteq> 0 \<Longrightarrow> length (neighborOffsets a b) = 8"
  by (simp add: neighborOffsets_def)

lemma encode_all_ok:
  assumes "list_all (\<lambda>(la, lo). -90 \<le> la \<and> la \<le> 90 \<and> -180 \<le> lo \<and> lo \<le> 180) ps"
  shows "\<exists>gs. encode_all p ps = Inr gs \<and> length gs = length ps
           \<and> list_all (\<lambda>g. length g = p \<and> list_all (\<lambda>c. c \<in> set BASE32) g) gs"
  using assms
proof (induction ps)
  case Nil
  then show ?case by simp
next
  case (Cons q qs)
  obtain la lo where q: "q = (la, lo)" by (cases q)
  with Cons.prems obtain g where g: "encode la lo p = Inr g" "length g = p"
      "list_all (\<lambda>c. c \<in> set BASE32) g"
    using encode_in_range [of la lo p] by auto
  from Cons obtain gs where "encode_all p qs = Inr gs" "length gs = length qs"
      "list_all (\<lambda>g. length g = p \<and> list_all (\<lambda>c. c \<in> set BASE32) g) gs"
    by auto
  with g q show ?case by simp
qed

lemma clamped_in_range:
  "list_all (\<lambda>(la, lo). -90 \<le> la \<and> la \<le> 90 \<and> -180 \<le> lo \<and> lo \<le> 180)
     (map (\<lambda>(dlat, dlon). (clampTo (-90) 90 (x + dlat), clampTo (-180) 180 (y + dlon))) offs)"
  by (induction offs) (auto simp: clampTo_def)

lemma getNeighbors_valid:
  assumes "validGeohash g"
  shows "\<exists>ns. getNeighbors g = Inr ns \<and> length ns = 8
           \<and> list_all (\<lambda>n. length n = length g \<and> validGeohash n) ns"
proof -
  from decode_valid [OF assms] obtain d where d: "decode g = Inr d"
      "fst (latRange d) < snd (latRange d)" "fst (lonRange d) < snd (lonRange d)"
    by blast
  let ?offs = "neighborOffsets (snd (latRange d) - fst (latRange d))
                 (snd (lonRange d) - fst (lonRange d))"
  let ?pts = "map (\<lambda>(dlat, dlon). (clampTo (-90) 90 (dec_lat d + dlat),
                                     clampTo (-180) 180 (dec_lon d + dlon))) ?offs"
  have len: "length ?pts = 8"
    using d(2,3) by (simp add: neighborOffsets_length)
  from encode_all_ok [OF clamped_in_range, of "length g" "dec_lat d" "dec_lon d" ?offs]
  obtain gs where gs: "encode_all (length g) ?pts = Inr gs" "length gs = length ?pts"
      "list_all (\<lambda>n. length n = length g \<and> list_all (\<lambda>c. c \<in> set BASE32) n) gs"
    by blast
  have "g \<noteq> []" using assms by (simp add: validGeohash_def)
  then have "list_all (\<lambda>n. length n = length g \<and> validGeohash n) gs"
    using gs(3) by (auto simp: validGeohash_def list_all_iff)
  moreover have "getNeighbors g = Inr gs"
    using d(1) gs(1) by (simp add: getNeighbors_def Let_def)
  ultimately show ?thesis using gs(2) len by simp
qed

text \<open>
  The input of the repository's own round-trip test (tests/basic.test.ts,
  \<open>encode(40.7128, -74.0060)\<close> at the default precision): the code yields a
  geohash whose cell lies around latitude 20.3, longitude 14.7.
\<close>

lemma encode_test_input: "encode 40.7128 (-74.006) GEOHASH_PRECISION = Inr ''s7d7w3''"
  by code_simp

lemma decode_test_output:
  "decode ''s7d7w3'' =
     Inr \<lparr>dec_lat = 332775 / 16384, dec_lon = 120375 / 8192,
          latRange = (166365 / 8192, 83205 / 4096),
          lonRange = (60165 / 4096, 30105 / 2048)\<rparr>"
  by code_simp

text \<open>
  C1. Geohash round-trip. The claim asks that the bounding box of
  \<open>decode(encode(lat, lon, p))\<close> contains \<open>(lat, lon)\<close>. The encoder sets bit
  \<open>4 - floor(i / 2) mod 5\<close> instead of bit \<open>4 - i mod 5\<close>, so two loop indices
  share a bit position and the decoder, which reads five distinct bits, is
  not its inverse. At latitude 10, longitude 10, precision 1 the code encodes
  to \<open>h\<close>, whose decoded box has latitude range [-90, -45] and does not contain
  latitude 10.
\<close>

theorem geohash_roundtrip_fails:
  "encode 10 10 1 = Inr ''h''
   \<and> decode ''h'' = Inr \<lparr>dec_lat = -135 / 2, dec_lon = 45 / 2,
                          latRange = (-90, -45), lonRange = (0, 45)\<rparr>
   \<and> \<not> boxContains \<lparr>dec_lat = -135 / 2, dec_lon = 45 / 2,
                      latRange = (-90, -45), lonRange = (0, 45)\<rparr> 10 10"
proof (intro conjI)
  show "encode 10 10 1 = Inr ''h''"
    by code_simp
  show "decode ''h'' = Inr \<lparr>dec_lat = -135 / 2, dec_lon = 45 / 2,
                            latRange = (-90, -45), lonRange = (0, 45)\<rparr>"
    by code_simp
  show "\<not> boxContains \<lparr>dec_lat = -135 / 2, dec_lon = 45 / 2,
                        latRange = (-90, -45), lonRange = (0, 45)\<rparr> 10 10"
    by (simp add: boxContains_def)
qed

text \<open>
  C3, as stated. The claim asks for eight pairwise distinct neighbours. For
  the corner cell \<open>z\<close> the clamped neighbour points fall into shared cells and
  the eight strings repeat.
\<close>

theorem neighbors_not_distinct:
  "validGeohash ''z''
   \<and> getNeighbors ''z'' = Inr [''s'', ''w'', ''w'', ''s'', ''w'', ''s'', ''w'', ''w'']
   \<and> \<not> distinct [''s'', ''w'', ''w'', ''s'', ''w'', ''s'', ''w'', ''w'']"
proof (intro conjI)
  show "validGeohash ''z''"
    by (simp add: validGeohash_def BASE32_def)
  show "getNeighbors ''z'' = Inr [''s'', ''w'', ''w'', ''s'', ''w'', ''s'', ''w'', ''w'']"
    by code_simp
  show "\<not> distinct [''s'', ''w'', ''w'', ''s'', ''w'', ''s'', ''w'', ''w'']"
    by simp
qed

text \<open>
  C3, amended. For every valid geohash \<open>g\<close> (non-empty, all characters in the
  base-32 alphabet) of at most 10 characters, \<open>getNeighbors g\<close> returns, without
  raising, exactly 8 strings, each of the length of \<open>g\<close> and itself a valid
  geohash. The bound is where the exact reals of the model are the program's
  doubles: past it a cell's extent can round to zero, and the program skips
  every offset that is then zero.
\<close>

theorem neighbors_eight_same_length:
  assumes "validGeohash g" and "length g \<le> 10"
  shows "\<exists>ns. getNeighbors g = Inr ns \<and> length ns = 8
           \<and> (\<forall>n\<in>set ns. length n = length g \<and> validGeohash n)"
  using getNeighbors_valid [OF assms(1)] by (auto simp: list_all_iff)

theorem neighbors_eight_same_length_witness:
  "\<exists>ns. getNeighbors ''dr5reg'' = Inr ns \<and> length ns = 8
     \<and> (\<forall>n\<in>set ns. length n = length ''dr5reg'' \<and> validGeohash n)"
  by (rule neighbors_eight_same_length) (simp_all add: validGeohash_def BASE32_def)

section \<open>Properties of the geometry and the scorer\<close>

lemma notInAnyHole_iff: "notInAnyHole pt hs \<longleftrightarrow> (\<forall>h\<in>set hs. \<not> pointInPolygon pt h)"
  by (induction hs) auto

lemma unit_square_inside: "pointInPolygon (1/2, 1/2) [(0,0),(0,1),(1,1),(1,0)]"
  by (simp add: pointInPolygon_def)

lemma far_square_outside: "\<not> pointInPolygon (1/2, 1/2) [(2,2),(2,3),(3,3),(3,2)]"
  by (simp add: pointInPolygon_def)

text \<open>
  C8. \<open>pointInPolygonWithHoles\<close> holds exactly when the point is inside the
  exterior and inside no hole, and \<open>pointInPolygon\<close> is false for every ring
  of fewer than 3 points.
\<close>

theorem pointInPolygonWithHoles_iff:
  "(pointInPolygonWithHoles pt ext hs \<longleftrightarrow>
      pointInPolygon pt ext \<and> (\<forall>h\<in>set hs. \<not> pointInPolygon pt h))
   \<and> (length ring < 3 \<longrightarrow> \<not> pointInPolygon pt ring)"
  by (simp add: pointInPolygonWithHoles_def notInAnyHole_iff pointInPolygon_def)

theorem pointInPolygonWithHoles_iff_witness:
  "pointInPolygonWithHoles (1/2, 1/2) [(0,0),(0,1),(1,1),(1,0)] [[(2,2),(2,3),(3,3),(3,2)]]
   \<and> \<not> pointInPolygon (1/2, 1/2) [(0,0),(0,1)]"
proof -
  have a: "pointInPolygon (1/2, 1/2) [(0,0),(0,1),(1,1),(1,0)]
           \<and> (\<forall>h\<in>set [[(2,2),(2,3),(3,3),(3,2)]]. \<not> pointInPolygon (1/2, 1/2) h)"
    using unit_square_inside far_square_outside by simp
  have b: "length [(0::real,0::real),(0,1)] < 3" by simp
  from a b pointInPolygonWithHoles_iff
    [of "(1/2, 1/2)" "[(0,0),(0,1),(1,1),(1,0)]" "[[(2,2),(2,3),(3,3),(3,2)]]" "[(0,0),(0,1)]"]
  show ?thesis by blast
qed

lemma dmin_assoc: "dmin (dmin a b) c = dmin a (dmin b c)"
  by (cases a; cases b; cases c) (simp_all add: min.assoc)

lemma dmin_Infinity_right [simp]: "dmin d Infinity = d"
  by (cases d) simp_all

lemma minEdge_foldl:
  "foldl (\<lambda>m hole. dmin m (distanceToPolygonEdge pt hole)) d hs
     = dmin d (spec_minOverHoles pt hs)"
  by (induction hs arbitrary: d) (simp_all add: dmin_assoc)

lemma minEdgeDistance_spec: "minEdgeDistance pt ext hs = spec_d pt ext hs"
  by (simp add: minEdgeDistance_def spec_d_def minEdge_foldl)

lemma baseConfidence_spec: "baseConfidence d = spec_base d"
  by (cases d) (auto simp: spec_base_def)

lemma dmin_cases: "dmin a b = a \<or> dmin a b = b"
  by (cases a; cases b) (auto simp: min_def)

lemma dle_dmin_left: "dle (dmin a b) a"
  by (cases a; cases b) auto

lemma dle_dmin_right: "dle (dmin a b) b"
  by (cases a; cases b) auto

lemma dle_trans: "dle a b \<Longrightarrow> dle b c \<Longrightarrow> dle a c"
  by (cases a; cases b; cases c) auto

lemma spec_minOverHoles_lower:
  "h \<in> set hs \<Longrightarrow> dle (spec_minOverHoles pt hs) (distanceToPolygonEdge pt h)"
  by (induction hs) (auto intro: dle_dmin_left dle_trans [OF dle_dmin_right])

lemma spec_minOverHoles_attained:
  "spec_minOverHoles pt hs = Infinity
     \<or> spec_minOverHoles pt hs \<in> set (map (distanceToPolygonEdge pt) hs)"
proof (induction hs)
  case Nil
  then show ?case by simp
next
  case (Cons h hs)
  from dmin_cases [of "distanceToPolygonEdge pt h" "spec_minOverHoles pt hs"] Cons
  show ?case by auto
qed

lemma spec_d_lower:
  "x \<in> set (distanceToPolygonEdge pt ext # map (distanceToPolygonEdge pt) hs) \<Longrightarrow>
     dle (spec_d pt ext hs) x"
  by (auto simp: spec_d_def intro: dle_dmin_left
        dle_trans [OF dle_dmin_right spec_minOverHoles_lower])

lemma spec_d_attained:
  "spec_d pt ext hs \<in> set (distanceToPolygonEdge pt ext # map (distanceToPolygonEdge pt) hs)"
proof -
  from dmin_cases [of "distanceToPolygonEdge pt ext" "spec_minOverHoles pt hs"]
    spec_minOverHoles_attained [of pt hs]
  show ?thesis by (auto simp: spec_d_def)
qed

text \<open>
  C4. \<open>calculateConfidence\<close> equals the reference scorer: the minimum \<open>d\<close> of
  the distances to the exterior and to every hole (one of these distances,
  and at most each of them), the four-band base value, the ambiguity penalty
  for more than one candidate, the clamp to [0.5, 1.0].
\<close>

theorem calculateConfidence_refines_spec:
  "calculateConfidence pt ext hs n = spec_score pt ext hs n
   \<and> spec_d pt ext hs \<in> set (distanceToPolygonEdge pt ext # map (distanceToPolygonEdge pt) hs)
   \<and> (\<forall>x\<in>set (distanceToPolygonEdge pt ext # map (distanceToPolygonEdge pt) hs).
         dle (spec_d pt ext hs) x)"
proof (intro conjI)
  show "calculateConfidence pt ext hs n = spec_score pt ext hs n"
    by (auto simp: calculateConfidence_def confidenceOfDistance_def spec_score_def
          minEdgeDistance_spec baseConfidence_spec Let_def)
  show "spec_d pt ext hs
          \<in> set (distanceToPolygonEdge pt ext # map (distanceToPolygonEdge pt) hs)"
    by (rule spec_d_attained)
  show "\<forall>x\<in>set (distanceToPolygonEdge pt ext # map (distanceToPolygonEdge pt) hs).
          dle (spec_d pt ext hs) x"
    using spec_d_lower by blast
qed

theorem calculateConfidence_refines_spec_witness:
  "calculateConfidence (1/2, 1/2) unitSquare [farSquare] 2
     = spec_score (1/2, 1/2) unitSquare [farSquare] 2
   \<and> spec_d (1/2, 1/2) unitSquare [farSquare]
       \<in> set (distanceToPolygonEdge (1/2, 1/2) unitSquare
                # map (distanceToPolygonEdge (1/2, 1/2)) [farSquare])
   \<and> dle (spec_d (1/2, 1/2) unitSquare [farSquare])
          (distanceToPolygonEdge (1/2, 1/2) farSquare)"
proof -
  have "distanceToPolygonEdge (1/2, 1/2) farSquare
          \<in> set (distanceToPolygonEdge (1/2, 1/2) unitSquare
                   # map (distanceToPolygonEdge (1/2, 1/2)) [farSquare])"
    by simp
  with calculateConfidence_refines_spec [of "(1/2, 1/2)" unitSquare "[farSquare]" 2]
  show ?thesis by blast
qed

lemma baseConfidence_mono: "dle d1 d2 \<Longrightarrow> baseConfidence d1 \<le> baseConfidence d2"
  by (cases d1; cases d2) (auto simp: field_simps)

lemma confidenceOfDistance_mono:
  "dle d1 d2 \<Longrightarrow> confidenceOfDistance d1 n \<le> confidenceOfDistance d2 n"
  using baseConfidence_mono [of d1 d2]
  by (auto simp: confidenceOfDistance_def Let_def)


lemma unit_square_centre_distance:
  "minEdgeDistance (1/2, 1/2) [(0,0),(0,1),(1,1),(1,0)] [] = Finite (1/2)"
  by (simp add: minEdgeDistance_def distanceToPolygonEdge_def segmentDistance_def Let_def
        power2_eq_square real_sqrt_divide)

lemma unit_square_border_distance:
  "minEdgeDistance (1/100, 1/2) [(0,0),(0,1),(1,1),(1,0)] [] = Finite (1/100)"
  by (simp add: minEdgeDistance_def distanceToPolygonEdge_def segmentDistance_def Let_def
        power2_eq_square real_sqrt_divide)

text \<open>
  C5. For a fixed candidate count the score does not fall when the minimum
  distance to the boundary grows, whatever the two point and polygon pairs
  are; and for one point and polygon the score with two candidates is at most
  the score with one.
\<close>

theorem calculateConfidence_monotone:
  "(dle (minEdgeDistance p1 e1 h1) (minEdgeDistance p2 e2 h2) \<longrightarrow>
      calculateConfidence p1 e1 h1 n \<le> calculateConfidence p2 e2 h2 n)
   \<and> calculateConfidence pt ext hs 2 \<le> calculateConfidence pt ext hs 1"
  by (auto simp: calculateConfidence_def confidenceOfDistance_mono)
     (auto simp: confidenceOfDistance_def Let_def)

theorem calculateConfidence_monotone_witness:
  "calculateConfidence (1/100, 1/2) [(0,0),(0,1),(1,1),(1,0)] [] 1
     \<le> calculateConfidence (1/2, 1/2) [(0,0),(0,1),(1,1),(1,0)] [] 1
   \<and> calculateConfidence (1/2, 1/2) [(0,0),(0,1),(1,1),(1,0)] [] 2
     \<le> calculateConfidence (1/2, 1/2) [(0,0),(0,1),(1,1),(1,0)] [] 1"
proof -
  have h: "dle (minEdgeDistance (1/100, 1/2) [(0,0),(0,1),(1,1),(1,0)] [])
               (minEdgeDistance (1/2, 1/2) [(0,0),(0,1),(1,1),(1,0)] [])"
    by (simp add: unit_square_centre_distance unit_square_border_distance)
  from h calculateConfidence_monotone
    [of "(1/100, 1/2)" "[(0,0),(0,1),(1,1),(1,0)]" "[]"
        "(1/2, 1/2)" "[(0,0),(0,1),(1,1),(1,0)]" "[]" 1
        "(1/2, 1/2)" "[(0,0),(0,1),(1,1),(1,0)]" "[]"]
  show ?thesis by blast
qed

section \<open>Properties of the reverse lookup\<close>

lemma exactLoop_find:
  "exactLoop (toUpperCase (trim inp)) (normalizeCountryName inp) md = find (exactMatch inp) md"
  by (induction md) (auto simp: exactMatch_def)

lemma partialLoop_find:
  "partialLoop (normalizeCountryName inp) md = find (substringMatch inp) md"
  by (induction md) (auto simp: substringMatch_def Let_def)

text \<open>
  C2, as stated. The claim puts the ISO2 tier, tried on all records, before
  the name tier: a later record whose ISO2 equals the input should win over
  an earlier record that matches by name only. For the input \<open>us\<close> the first
  record matches by normalized name alone, the second by ISO2, and the code
  returns the first.
\<close>

theorem findCountry_name_before_later_iso2:
  "metadata tierStore = [nameRecord, isoRecord]
   \<and> toUpperCase (orEmpty (md_iso2 (snd isoRecord))) = toUpperCase (trim ''us'')
   \<and> toUpperCase (orEmpty (md_iso2 (snd nameRecord))) \<noteq> toUpperCase (trim ''us'')
   \<and> toUpperCase (orEmpty (md_iso3 (snd nameRecord))) \<noteq> toUpperCase (trim ''us'')
   \<and> normalizeCountryName (orEmpty (md_name (snd nameRecord))) = normalizeCountryName ''us''
   \<and> findCountryByNameOrIso ''us'' tierStore = Some nameRecord
   \<and> findCountryByNameOrIso ''us'' tierStore \<noteq> Some isoRecord"
  by code_simp

text \<open>
  C2, amended. \<open>findCountryByNameOrIso\<close> returns the first record, in the
  order of enumeration, that matches the input by exact ISO2, by exact ISO3
  or by exact normalized name, the three tests being made together on each
  record; only when no record matches exactly does it return the first record
  that matches by substring containment; with no such record it returns null.
\<close>

theorem findCountryByNameOrIso_first_exact_then_substring:
  "findCountryByNameOrIso inp L =
     (case find (exactMatch inp) (metadata L) of
        Some r \<Rightarrow> Some r
      | None \<Rightarrow> find (substringMatch inp) (metadata L))"
  by (simp add: findCountryByNameOrIso_def Let_def exactLoop_find partialLoop_find
        split: option.splits)

lemma dropWhile_all: "list_all P s \<Longrightarrow> dropWhile P s = []"
  by (induction s) auto

lemma trim_whitespace: "list_all isWhitespace s \<Longrightarrow> trim s = []"
  by (simp add: trim_def dropWhile_all)

lemma normalize_whitespace: "list_all isWhitespace s \<Longrightarrow> normalizeCountryName s = []"
  by (simp add: normalizeCountryName_def trim_whitespace toLowerCase_def replaceAll_def)

lemma str_includes_empty: "str_includes a []"
  by (cases a) simp_all

lemma partialLoop_empty: "md \<noteq> [] \<Longrightarrow> partialLoop [] md = Some (hd md)"
  by (cases md) (auto simp: str_includes_empty Let_def)

text \<open>
  C10. For a store with a record whose name is a non-empty string and an
  identifier that is empty or all whitespace, \<open>resolveByCountry\<close> does not
  raise the not-found error: every normalized name contains the empty
  normalized input, so the substring loop matches the first record
  enumerated. The lookup returns that record unless the exact loop has
  already returned one (a record whose ISO2, ISO3 or normalized name is
  empty).
\<close>

theorem empty_identifier_matches_first_record:
  assumes "list_all isWhitespace inp"
    and "\<exists>r\<in>set (metadata L). orEmpty (md_name (snd r)) \<noteq> []"
  shows "(\<forall>s. resolveByCountry inp L \<noteq> Inl (CountryNotFound s))
     \<and> (\<forall>r\<in>set (metadata L).
           str_includes (normalizeCountryName (orEmpty (md_name (snd r))))
             (normalizeCountryName inp))
     \<and> partialLoop (normalizeCountryName inp) (metadata L) = Some (hd (metadata L))
     \<and> findCountryByNameOrIso inp L =
         (case find (exactMatch inp) (metadata L) of
            Some r \<Rightarrow> Some r
          | None \<Rightarrow> Some (hd (metadata L)))"
proof -
  from assms(2) have ne: "metadata L \<noteq> []" by auto
  have n: "normalizeCountryName inp = []"
    using assms(1) by (rule normalize_whitespace)
  have p: "partialLoop (normalizeCountryName inp) (metadata L) = Some (hd (metadata L))"
    using ne by (simp add: n partialLoop_empty)
  have f: "findCountryByNameOrIso inp L =
         (case find (exactMatch inp) (metadata L) of
            Some r \<Rightarrow> Some r
          | None \<Rightarrow> Some (hd (metadata L)))"
    using p by (simp add: findCountryByNameOrIso_def Let_def exactLoop_find split: option.splits)
  then have "findCountryByNameOrIso inp L \<noteq> None"
    by (simp split: option.splits)
  then have "\<forall>s. resolveByCountry inp L \<noteq> Inl (CountryNotFound s)"
    by (auto simp: resolveByCountry_def Let_def split: option.splits prod.splits)
  with p f show ?thesis by (simp add: n str_includes_empty)
qed

theorem empty_identifier_matches_first_record_witness:
  "(\<forall>s. resolveByCountry '' '' exampleStore \<noteq> Inl (CountryNotFound s))
     \<and> str_includes (normalizeCountryName (orEmpty (md_name (snd (7::nat, squareland)))))
          (normalizeCountryName '' '')
     \<and> partialLoop (normalizeCountryName '' '') (metadata exampleStore)
         = Some (hd (metadata exampleStore))"
proof -
  have a: "list_all isWhitespace '' ''"
    by (simp add: isWhitespace_def)
  have m: "(7::nat, squareland) \<in> set (metadata exampleStore)"
    by (simp add: exampleStore_def)
  have "orEmpty (md_name (snd (7::nat, squareland))) \<noteq> []"
    by (simp add: squareland_def orEmpty_def)
  with m have b: "\<exists>r\<in>set (metadata exampleStore). orEmpty (md_name (snd r)) \<noteq> []"
    by blast
  from m empty_identifier_matches_first_record [OF a b]
  show ?thesis by blast
qed

section \<open>Properties of the forward pipeline\<close>

lemma extendedList_ok:
  "list_all validGeohash ns \<Longrightarrow> \<exists>es. extendedList ns = Inr es"
proof (induction ns)
  case Nil
  then show ?case by simp
next
  case (Cons n ns)
  then obtain es where "extendedList ns = Inr es" by auto
  moreover from Cons.prems obtain xs where "getNeighbors n = Inr xs"
    using getNeighbors_valid [of n] by auto
  ultimately show ?case by simp
qed

lemma findCandidates_ok:
  assumes "validGeohash g"
  shows "\<exists>cs. findCandidates L g = Inr cs"
proof -
  from getNeighbors_valid [OF assms] obtain ns where ns: "getNeighbors g = Inr ns"
      "list_all (\<lambda>n. length n = length g \<and> validGeohash n) ns"
    by blast
  then have "list_all validGeohash ns" by (simp add: list_all_iff)
  then obtain es where "extendedList ns = Inr es"
    using extendedList_ok by blast
  with ns(1) show ?thesis
    by (simp add: findCandidates_def candidatesStep3_def candidatesStep3b_def)
qed

lemma encode_valid:
  assumes "-90 \<le> la" "la \<le> 90" "-180 \<le> lo" "lo \<le> 180"
  shows "\<exists>g. encode la lo GEOHASH_PRECISION = Inr g \<and> validGeohash g"
proof -
  from encode_in_range [OF assms, of GEOHASH_PRECISION]
  obtain g where g: "encode la lo GEOHASH_PRECISION = Inr g" "length g = GEOHASH_PRECISION"
      "list_all (\<lambda>c. c \<in> set BASE32) g"
    by blast
  from g(2) have "g \<noteq> []" by (auto simp: GEOHASH_PRECISION_def)
  with g show ?thesis by (simp add: validGeohash_def)
qed


lemma firstMatchingExterior_find:
  "firstMatchingExterior pt hs exts =
     find (\<lambda>ext. ext \<noteq> [] \<and> pointInPolygonWithHoles pt ext hs) exts"
  by (induction exts) auto


lemma fallbackMatches_map_filter:
  "fallbackMatches pt L cs md = List.map_filter (fallbackEntry pt L cs) md"
  by (induction md)
     (auto simp: fallbackEntry_def firstMatchingExterior_find split: option.splits)







subsection \<open>The example store at the point (0.5, 0.5)\<close>

lemma example_encode: "encode (1/2) (1/2) GEOHASH_PRECISION = Inr ''h003w3''"
  by code_simp

lemma example_candidates: "findCandidates exampleStore ''h003w3'' = Inr [9]"
  by (simp add: findCandidates_def candidatesStep3_def candidatesStep3b_def candidatesStep3c_def
        getCandidateCountries_def exampleStore_def dedupe_def)


lemma example_outside: "\<not> pointInPolygonWithHoles (1/2, 1/2) farSquare []"
  by (simp add: pointInPolygonWithHoles_def pointInPolygon_def farSquare_def)

lemma example_primary: "primaryMatches (1/2, 1/2) exampleStore (real (length [9::nat])) [9] = []"
  by (simp add: getPolygon_def exampleStore_def exteriorsOf_def holesOf_def example_outside
        farSquare_def [symmetric])






text \<open>
  C7. When none of the candidates of an in-range point passed the
  point-in-polygon test, the matches of \<open>resolve\<close> are those of the scan over
  every metadata entry: an entry that is not a candidate and has an exterior
  containing the point is recorded with the score of the first such exterior
  at candidate count 1, multiplied by 0.95; \<open>resolve\<close> selects from exactly
  these.
\<close>

theorem fallback_match_discount:
  assumes "encode la lo GEOHASH_PRECISION = Inr g"
    and "findCandidates L g = Inr cs"
    and "cs \<noteq> []"
    and "primaryMatches (la, lo) L (real (length cs)) cs = []"
  shows "findMatches (la, lo) L cs = List.map_filter (fallbackEntry (la, lo) L cs) (metadata L)
     \<and> resolve la lo L
         = selectBest L (List.map_filter (fallbackEntry (la, lo) L cs) (metadata L))"
proof -
  have "findMatches (la, lo) L cs = List.map_filter (fallbackEntry (la, lo) L cs) (metadata L)"
    using assms(4) by (simp add: findMatches_def fallbackMatches_map_filter)
  moreover have "resolve la lo L = selectBest L (findMatches (la, lo) L cs)"
    using assms(1-3) by (simp add: resolve_def)
  ultimately show ?thesis by simp
qed

theorem fallback_match_discount_witness:
  "findMatches (1/2, 1/2) exampleStore [9]
     = List.map_filter (fallbackEntry (1/2, 1/2) exampleStore [9]) (metadata exampleStore)
   \<and> resolve (1/2) (1/2) exampleStore
     = selectBest exampleStore
         (List.map_filter (fallbackEntry (1/2, 1/2) exampleStore [9]) (metadata exampleStore))"
  by (rule fallback_match_discount [OF example_encode example_candidates _ example_primary])
     simp



section \<open>Properties of the pipeline on every number and every coordinate array\<close>






lemma encode_step_js_Num: "encode_step_js (Num a) (Num b) = encode_step a b"
  by (intro ext) (simp add: encode_step_js_def encode_step_def)

lemma encode_js_Num:
  "-90 \<le> a \<Longrightarrow> a \<le> 90 \<Longrightarrow> -180 \<le> b \<Longrightarrow> b \<le> 180 \<Longrightarrow>
     encode_js (Num a) (Num b) p = encode a b p"
  by (simp add: encode_js_def encode_def encode_step_js_Num)

lemma gt_js_None [simp]: "gt_js a None = False"
  by (simp add: gt_js_def split: option.splits)

lemma lt_js_None [simp]: "lt_js None b = False"
  by (simp add: lt_js_def)





lemma toPointsChecked_Inl:
  "toPointsChecked ext = Inl e \<Longrightarrow> \<exists>c\<in>set ext. length c < 2 \<and> e = InvalidCoordinate c"
  by (induction ext) (auto split: if_splits sum.splits)


lemma toPointsChecked_wellFormed:
  "wellFormedRing ext \<Longrightarrow> toPointsChecked ext = Inr (map toPoint ext)"
  by (induction ext) (auto simp: wellFormedRing_def toPoint_def)

lemma firstMatchingExterior_checked_Inl:
  "firstMatchingExterior_checked pt hs exts = Inl e \<Longrightarrow>
     \<exists>ext\<in>set exts. \<exists>c\<in>set ext. length c < 2 \<and> e = InvalidCoordinate c"
  by (induction exts) (auto split: if_splits sum.splits dest: toPointsChecked_Inl)



lemma firstMatchingExterior_checked_wellFormed:
  "list_all wellFormedRing exts \<Longrightarrow>
     firstMatchingExterior_checked pt hs exts = Inr (firstMatchingExterior_js pt hs exts)"
  by (induction exts) (auto simp: toPointsChecked_wellFormed)

lemma primaryMatches_js_Inl:
  "primaryMatches_js pt L n cs = Inl e \<Longrightarrow>
     \<exists>cid pd ext c. polygons L cid = Some pd \<and> ext \<in> set (exteriorsOf pd)
        \<and> c \<in> set ext \<and> length c < 2 \<and> e = InvalidCoordinate c"
proof (induction cs)
  case Nil
  then show ?case by simp
next
  case (Cons cid cs)
  show ?case
  proof (cases "getPolygon L cid")
    case None
    with Cons show ?thesis by simp
  next
    case (Some pd)
    show ?thesis
    proof (cases "firstMatchingExterior_checked pt (holes_js pd) (exteriorsOf pd)")
      case (Inl e')
      with Some Cons.prems have "e' = e" by simp
      with Inl firstMatchingExterior_checked_Inl [of pt "holes_js pd" "exteriorsOf pd" e]
      obtain ext c where "ext \<in> set (exteriorsOf pd)" "c \<in> set ext" "length c < 2"
          "e = InvalidCoordinate c" by auto
      with Some show ?thesis by (auto simp: getPolygon_def)
    next
      case (Inr r)
      with Some Cons show ?thesis by (auto split: option.splits sum.splits)
    qed
  qed
qed

lemma primaryMatches_js_wellFormed:
  assumes "\<forall>cid pd. polygons L cid = Some pd \<longrightarrow> list_all wellFormedRing (exteriorsOf pd)"
  shows "\<exists>ms. primaryMatches_js pt L n cs = Inr ms"
proof (cases "primaryMatches_js pt L n cs")
  case (Inl e)
  from primaryMatches_js_Inl [OF this] assms show ?thesis
    by (fastforce simp: list_all_iff wellFormedRing_def)
next
  case (Inr ms)
  then show ?thesis by simp
qed












subsection \<open>Agreement with the pipeline on reals and pairs\<close>

lemma lift2_Some [simp]: "lift2 f (Some x) (Some y) = Some (f x y)"
  by (simp add: lift2_def)

lemma gt_js_Some [simp]: "gt_js (Some x) (Some y) = (x > y)"
  by (simp add: gt_js_def)

lemma lt_js_Some [simp]: "lt_js (Some x) (Some y) = (x < y)"
  by (simp add: lt_js_def)

lemma pip_loop_js_embed:
  "pip_loop_js (embedPoint pt) (embedPoint p_j) (map embedPoint poly) inside
     = pip_loop pt p_j poly inside"
  by (induction poly arbitrary: p_j inside) (simp_all add: embedPoint_def Let_def)

lemma pointInPolygon_js_embed:
  "pointInPolygon_js (embedPoint pt) (map embedPoint poly) = pointInPolygon pt poly"
proof (cases "poly = []")
  case True
  then show ?thesis by (simp add: pointInPolygon_js_def pointInPolygon_def)
next
  case False
  then have "last (map embedPoint poly) = embedPoint (last poly)"
    by (simp add: last_map)
  then show ?thesis
    by (simp add: pointInPolygon_js_def pointInPolygon_def pip_loop_js_embed)
qed

lemma notInAnyHole_js_embed:
  "notInAnyHole_js (embedPoint pt) (map (map embedPoint) hs) = notInAnyHole pt hs"
  by (induction hs) (simp_all add: pointInPolygon_js_embed)

lemma pointInPolygonWithHoles_js_embed:
  "pointInPolygonWithHoles_js (embedPoint pt) (map embedPoint ext) (map (map embedPoint) hs)
     = pointInPolygonWithHoles pt ext hs"
  by (simp add: pointInPolygonWithHoles_js_def pointInPolygonWithHoles_def
        pointInPolygon_js_embed notInAnyHole_js_embed)

lemma segmentDistance_js_embed:
  "segmentDistance_js (embedPoint pt) (embedPoint p_i) (embedPoint p_j)
     = Some (segmentDistance pt p_i p_j)"
  by (simp add: segmentDistance_js_def segmentDistance_def embedPoint_def Let_def)

lemma dmin_js_Some [simp]: "dmin_js (Some a) (Some b) = Some (dmin a b)"
  by (simp add: dmin_js_def)

lemma dist_loop_js_embed:
  "dist_loop_js (embedPoint pt) (embedPoint p_j) (map embedPoint poly) (Some m)
     = Some (dist_loop pt p_j poly m)"
  by (induction poly arbitrary: p_j m) (simp_all add: segmentDistance_js_embed)

lemma distanceToPolygonEdge_js_embed:
  "distanceToPolygonEdge_js (embedPoint pt) (map embedPoint poly)
     = Some (distanceToPolygonEdge pt poly)"
proof (cases "poly = []")
  case True
  then show ?thesis by (simp add: distanceToPolygonEdge_js_def distanceToPolygonEdge_def)
next
  case False
  then have "last (map embedPoint poly) = embedPoint (last poly)"
    by (simp add: last_map)
  with False show ?thesis
    by (simp add: distanceToPolygonEdge_js_def distanceToPolygonEdge_def dist_loop_js_embed)
qed

lemma minEdge_foldl_js_embed:
  "foldl (\<lambda>m hole. dmin_js m (distanceToPolygonEdge_js (embedPoint pt) hole)) (Some d)
         (map (map embedPoint) hs)
     = Some (foldl (\<lambda>m hole. dmin m (distanceToPolygonEdge pt hole)) d hs)"
  by (induction hs arbitrary: d) (simp_all add: distanceToPolygonEdge_js_embed)

lemma minEdgeDistance_js_embed:
  "minEdgeDistance_js (embedPoint pt) (map embedPoint ext) (map (map embedPoint) hs)
     = Some (minEdgeDistance pt ext hs)"
  by (simp add: minEdgeDistance_js_def minEdgeDistance_def distanceToPolygonEdge_js_embed
        minEdge_foldl_js_embed)

lemma baseConfidence_js_Some: "baseConfidence_js (Some d) = Some (baseConfidence d)"
  by (cases d) (simp_all add: baseConfidence_js_def)

lemma calculateConfidence_js_embed:
  "calculateConfidence_js (embedPoint pt) (map embedPoint ext) (map (map embedPoint) hs) n
     = Some (calculateConfidence pt ext hs n)"
  by (simp add: calculateConfidence_js_def calculateConfidence_def confidenceOfDistance_def
        minEdgeDistance_js_embed baseConfidence_js_Some Let_def)

lemma toPoint_rawCoord: "toPoint (rawCoord p) = embedPoint p"
  by (simp add: toPoint_def rawCoord_def embedPoint_def entry_def)

lemma toPoint_comp_rawCoord: "toPoint \<circ> rawCoord = embedPoint"
  by (intro ext) (simp add: toPoint_rawCoord)

lemma toPointsChecked_rawCoord: "toPointsChecked (map rawCoord ext) = Inr (map embedPoint ext)"
  by (induction ext) (simp_all add: rawCoord_def embedPoint_def entry_def)

lemma exteriorsOf_raw: "exteriorsOf (rawPolygonData pd) = map (map rawCoord) (exteriorsOf pd)"
  by (auto simp: exteriorsOf_def rawPolygonData_def)

lemma holesOf_raw: "holesOf (rawPolygonData pd) = map (map rawCoord) (holesOf pd)"
  by (simp add: holesOf_def rawPolygonData_def filter_map comp_def split: option.splits)

lemma holes_js_raw: "holes_js (rawPolygonData pd) = map (map embedPoint) (holesOf pd)"
  by (simp add: holes_js_def holesOf_raw toPoint_comp_rawCoord)

lemma firstMatchingExterior_checked_raw:
  "firstMatchingExterior_checked (embedPoint pt) (map (map embedPoint) hs)
       (map (map rawCoord) exts)
     = Inr (map_option (map embedPoint) (firstMatchingExterior pt hs exts))"
  by (induction exts)
     (simp_all add: toPointsChecked_rawCoord pointInPolygonWithHoles_js_embed)

lemma firstMatchingExterior_js_raw:
  "firstMatchingExterior_js (embedPoint pt) (map (map embedPoint) hs) (map (map rawCoord) exts)
     = map_option (map embedPoint) (firstMatchingExterior pt hs exts)"
  by (induction exts)
     (simp_all add: toPoint_comp_rawCoord pointInPolygonWithHoles_js_embed)

lemma primaryMatches_js_raw:
  "primaryMatches_js (embedPoint pt) (rawStore L) n cs
     = Inr (map embedMatch (primaryMatches pt L n cs))"
  by (induction cs)
     (auto simp: getPolygon_def rawStore_def exteriorsOf_raw holes_js_raw
        firstMatchingExterior_checked_raw calculateConfidence_js_embed embedMatch_def
        split: option.splits)

lemma fallbackMatches_js_raw:
  "fallbackMatches_js (embedPoint pt) (rawStore L) cs md
     = map embedMatch (fallbackMatches pt L cs md)"
  by (induction md)
     (auto simp: rawStore_def exteriorsOf_raw holes_js_raw
        firstMatchingExterior_js_raw calculateConfidence_js_embed embedMatch_def
        split: option.splits)

lemma metadata_rawStore [simp]: "metadata (rawStore L) = metadata L"
  by (simp add: rawStore_def)

lemma findMatches_js_raw:
  "findMatches_js (embedPoint pt) (rawStore L) cs = Inr (map embedMatch (findMatches pt L cs))"
  by (simp add: findMatches_js_def findMatches_def primaryMatches_js_raw fallbackMatches_js_raw)

lemma getCandidateCountries_raw: "getCandidateCountries (rawStore L) = getCandidateCountries L"
  by (intro ext) (simp add: getCandidateCountries_def rawStore_def Let_def)

lemma candidatesStep3_raw: "candidatesStep3 (rawStore L) g c = candidatesStep3 L g c"
  by (simp add: candidatesStep3_def getCandidateCountries_raw split: sum.splits)

lemma candidatesStep3b_raw: "candidatesStep3b (rawStore L) g c = candidatesStep3b L g c"
  by (simp add: candidatesStep3b_def getCandidateCountries_raw split: sum.splits)

lemma candidatesStep3c_raw: "candidatesStep3c (rawStore L) c = candidatesStep3c L c"
  by (simp add: candidatesStep3c_def)

lemma findCandidates_raw: "findCandidates (rawStore L) g = findCandidates L g"
  by (simp add: findCandidates_def candidatesStep3_raw candidatesStep3b_raw
        candidatesStep3c_raw getCandidateCountries_raw split: sum.splits)

lemma getMetadata_raw: "getMetadata (rawStore L) = getMetadata L"
  by (intro ext) (simp add: getMetadata_def)

lemma insort_key_embed:
  "insort_key (\<lambda>m. - the (snd m)) (embedMatch x) (map embedMatch xs)
     = map embedMatch (insort_key (\<lambda>m. - snd m) x xs)"
  by (induction xs) (simp_all add: embedMatch_def)

lemma sort_key_embed:
  "sort_key (\<lambda>m. - the (snd m)) (map embedMatch ms)
     = map embedMatch (sort_key (\<lambda>m. - snd m) ms)"
  by (induction ms) (simp_all add: insort_key_embed)

lemma bestMatch_js_embed:
  assumes "ms \<noteq> []"
  shows "bestMatch_js (map embedMatch ms) = Some (embedMatch (bestMatch ms))"
proof -
  have "sort_key (\<lambda>m. - snd m) ms \<noteq> []"
    using assms by (metis length_0_conv length_sort)
  then have "hd (map embedMatch (sort_key (\<lambda>m. - snd m) ms))
               = embedMatch (hd (sort_key (\<lambda>m. - snd m) ms))"
    by (simp add: hd_map)
  moreover have "list_all (\<lambda>m. snd m \<noteq> None) (map embedMatch ms)"
    by (simp add: list_all_iff embedMatch_def)
  ultimately show ?thesis
    by (simp add: bestMatch_js_def bestMatch_def sort_key_embed)
qed

lemma selectBest_js_embed:
  "selectBest_js (rawStore L) (map embedMatch ms)
     = (case selectBest L ms of Inl e \<Rightarrow> Raises e | Inr r \<Rightarrow> Returns (embedResult r))"
proof (cases "ms = []")
  case True
  then show ?thesis
    by (simp add: selectBest_js_def selectBest_def noMatch_js_def noMatch_def embedResult_def)
next
  case False
  then show ?thesis
    by (simp add: selectBest_js_def selectBest_def bestMatch_js_embed getMetadata_raw
          embedResult_def embedMatch_def Let_def split: option.splits)
qed

lemma resolve_js_agrees:
  assumes "-90 \<le> la" "la \<le> 90" "-180 \<le> lo" "lo \<le> 180"
  shows "resolve_js (Num la) (Num lo) (rawStore L)
     = (case resolve la lo L of Inl e \<Rightarrow> Raises e | Inr r \<Rightarrow> Returns (embedResult r))"
proof -
  have p: "(Some la, Some lo) = embedPoint (la, lo)"
    by (simp add: embedPoint_def)
  from encode_valid [OF assms] obtain g where g: "encode la lo GEOHASH_PRECISION = Inr g"
      "validGeohash g" by blast
  from findCandidates_ok [OF g(2)] obtain cs where cs: "findCandidates L g = Inr cs" by blast
  have "encode_js (Num la) (Num lo) GEOHASH_PRECISION = Inr g"
    using assms g(1) by (simp add: encode_js_Num)
  with g(1) cs show ?thesis
    by (simp add: resolve_js_def resolve_def findCandidates_raw p findMatches_js_raw
          selectBest_js_embed noMatch_js_def noMatch_def embedResult_def)
qed

subsection \<open>Raising against returning no match\<close>









end
